theory Spec2Isabelle
  imports Main "HOL-Library.AList"
begin

section \<open>Strings and the compression identifier (config/config.py)\<close>

text \<open>
  A \<^typ>\<open>char\<close> stands for a code point below 256. \<open>isspace\<close> is Python's
  \<^verbatim>\<open>str.isspace\<close> on that range, \<open>strip\<close> and \<open>lower\<close> are \<^verbatim>\<open>str.strip()\<close> and
  \<^verbatim>\<open>str.lower()\<close>.
\<close>

definition isspace :: "char \<Rightarrow> bool" where
  "isspace c = ((of_char c :: nat) \<in> {9, 10, 11, 12, 13, 28, 29, 30, 31, 32, 133, 160})"

definition strip :: "string \<Rightarrow> string" where
  "strip s = rev (dropWhile isspace (rev (dropWhile isspace s)))"

definition lower_char :: "char \<Rightarrow> char" where
  "lower_char c =
     (let n = (of_char c :: nat)
      in if (65 \<le> n \<and> n \<le> 90) \<or> (192 \<le> n \<and> n \<le> 222 \<and> n \<noteq> 215)
         then char_of (n + 32) else c)"

definition lower :: "string \<Rightarrow> string" where
  "lower s = map lower_char s"

text \<open>
  \<^verbatim>\<open>str.upper()\<close>: the sharp s becomes two letters; the two code points below 256 whose
  capital lies beyond 255 (micro sign, y with diaeresis) are kept, being no ASCII letter
  either way.
\<close>

definition upper_char :: "char \<Rightarrow> string" where
  "upper_char c =
     (let n = (of_char c :: nat)
      in if (97 \<le> n \<and> n \<le> 122) \<or> (224 \<le> n \<and> n \<le> 254 \<and> n \<noteq> 247)
         then [char_of (n - 32)]
         else if n = 223 then ''SS'' else [c])"

definition upper :: "string \<Rightarrow> string" where
  "upper s = concat (map upper_char s)"

text \<open>
  \<^verbatim>\<open>normalize_compression(value)\<close>: the value is typed \<^verbatim>\<open>Optional[str]\<close> throughout the
  repository, so \<^verbatim>\<open>isinstance(value, str)\<close> holds for every value that is not \<^verbatim>\<open>None\<close>.
\<close>

definition normalize_compression :: "string option \<Rightarrow> string option" where
  "normalize_compression v =
     (case v of
        None \<Rightarrow> None
      | Some s \<Rightarrow> if lower (strip s) \<in> {''none'', ''null'', ''''} then None else Some s)"

text \<open>Truth value of an \<^verbatim>\<open>Optional[str]\<close> in a condition: \<^verbatim>\<open>None\<close> and \<^verbatim>\<open>""\<close> are false.\<close>

definition truthy :: "string option \<Rightarrow> bool" where
  "truthy v = (case v of None \<Rightarrow> False | Some s \<Rightarrow> s \<noteq> [])"

section \<open>Row batches and the file system\<close>

type_synonym path = string
type_synonym row = "string list"

text \<open>
  A batch is a pandas DataFrame: named columns and rows of cells. \<open>df_empty\<close> is the
  property \<^verbatim>\<open>DataFrame.empty\<close> (some axis has length 0), \<open>df_len\<close> is \<^verbatim>\<open>len(chunk)\<close>.
\<close>

record DataFrame =
  columns :: "string list"
  rows :: "row list"

definition df_empty :: "DataFrame \<Rightarrow> bool" where
  "df_empty d = (rows d = [] \<or> columns d = [])"

definition df_len :: "DataFrame \<Rightarrow> int" where
  "df_len d = int (length (rows d))"

text \<open>
  The data handed to a strategy is one DataFrame or an iterator of DataFrames
  (\<^verbatim>\<open>SaverStrategy._iter_chunks\<close>); the iterator is a finite sequence.
\<close>

datatype data = Single DataFrame | Chunks "DataFrame list"

fun iter_chunks :: "data \<Rightarrow> DataFrame list" where
  "iter_chunks (Single d) = [d]"
| "iter_chunks (Chunks ds) = ds"

text \<open>
  A file is the sequence of pieces written to it: the byte order mark of the
  \<^verbatim>\<open>utf-8-sig\<close> encoding, text lines of the delimited and the line-delimited formats, a
  compressed member holding such pieces (each write under a codec makes one), or one
  binary image of a workbook or of a columnar table. A sheet maps a cell position (row,
  column) to its text.
\<close>

type_synonym sheet = "((nat \<times> nat) \<times> string) list"

datatype segment =
    BOM
  | HeaderLine "string list"
  | DataLine row
  | JsonLine "(string \<times> string) list"
  | Member string "segment list"
  | Workbook "(string \<times> sheet) list"
  | ParquetTable DataFrame

datatype mode = W | A

text \<open>
  The calls the strategies make into pathlib and pandas, in the order they are made,
  whether they return or raise.
\<close>

datatype io_event =
    Unlink path
  | ToCsv path mode bool "string option" DataFrame
  | OpenWriter path
  | ToExcel path string nat DataFrame
  | CloseWriter path
  | ToJson path mode "string option" DataFrame
  | ToParquet path "string option" DataFrame

record fsys =
  files :: "path \<rightharpoonup> segment list"
  io :: "io_event list"

text \<open>What the repository's code and the library calls raise.\<close>

datatype error =
    ExcelCompressionError
  | NoDataError
  | KeyError string
  | NoVisibleSheetError
  | UnrecognizedCompressionError string
  | UnsupportedCompressionError string
  | NonUniqueColumnsError
  | DuplicateColumnsError "string list"
  | IntParseError string
  | NotImplementedError
  | FileNotFoundError string
  | TransportError
  | SourceError string

text \<open>
  The library calls are modelled with the checks they make on their arguments: the codec
  name, and the column names where the format needs them unique. A destination that
  cannot be written and a full disk are outside the model, and the libraries of the
  codecs, of the workbook format and of the columnar format are taken to be installed.

  \<^verbatim>\<open>pandas.io.common.infer_compression\<close>, which \<^verbatim>\<open>to_csv\<close> and \<^verbatim>\<open>to_json\<close> go through before
  they open the destination: \<^verbatim>\<open>None\<close> is no compression, \<^verbatim>\<open>'infer'\<close> is read off the
  extension of the path, a supported codec name stands for itself, anything else raises
  \<^verbatim>\<open>ValueError\<close>.
\<close>

definition supported_compressions :: "string list" where
  "supported_compressions = [''tar'', ''gzip'', ''bz2'', ''zip'', ''xz'', ''zstd'']"

definition extension_to_compression :: "(string \<times> string) list" where
  "extension_to_compression =
     [(''.tar'', ''tar''), (''.tar.gz'', ''tar''), (''.tar.bz2'', ''tar''), (''.tar.xz'', ''tar''),
      (''.gz'', ''gzip''), (''.bz2'', ''bz2''), (''.zip'', ''zip''), (''.xz'', ''xz''),
      (''.zst'', ''zstd'')]"

definition endswith :: "string \<Rightarrow> string \<Rightarrow> bool" where
  "endswith s suffix = (take (length suffix) (rev s) = rev suffix)"

fun infer_from_extension :: "string \<Rightarrow> (string \<times> string) list \<Rightarrow> string option" where
  "infer_from_extension p [] = None"
| "infer_from_extension p ((extension, codec) # table) =
     (if endswith p extension then Some codec else infer_from_extension p table)"

definition infer_compression :: "path \<Rightarrow> string option \<Rightarrow> error + string option" where
  "infer_compression p compression =
     (case compression of
        None \<Rightarrow> Inr None
      | Some z \<Rightarrow>
          if z = ''infer'' then Inr (infer_from_extension (lower p) extension_to_compression)
          else if z \<in> set supported_compressions then Inr (Some z)
          else Inl (UnrecognizedCompressionError z))"

text \<open>
  Writing pieces to a file in mode \<^verbatim>\<open>'w'\<close> (replace) or \<^verbatim>\<open>'a'\<close> (append; a missing file
  is created).
\<close>

definition previous :: "mode \<Rightarrow> path \<Rightarrow> (path \<rightharpoonup> segment list) \<Rightarrow> segment list" where
  "previous m p f = (case m of W \<Rightarrow> [] | A \<Rightarrow> (case f p of None \<Rightarrow> [] | Some old \<Rightarrow> old))"

definition write_file :: "mode \<Rightarrow> path \<Rightarrow> segment list \<Rightarrow> (path \<rightharpoonup> segment list) \<Rightarrow> (path \<rightharpoonup> segment list)" where
  "write_file m p segs f = f(p \<mapsto> previous m p f @ segs)"

definition pack :: "string option \<Rightarrow> segment list \<Rightarrow> segment list" where
  "pack codec segs = (case codec of None \<Rightarrow> segs | Some z \<Rightarrow> [Member z segs])"

text \<open>\<^verbatim>\<open>filepath.unlink(missing_ok=True)\<close>\<close>

definition unlink :: "path \<Rightarrow> fsys \<Rightarrow> fsys" where
  "unlink p s = s\<lparr>files := (files s)(p := None), io := io s @ [Unlink p]\<rparr>"

text \<open>
  \<^verbatim>\<open>chunk.to_csv(path_or_buf, mode, header, index=False, encoding='utf-8-sig',
  compression)\<close>. The encoder puts the byte order mark at the start of a stream: at the
  start of the file when nothing precedes what is written, and at the start of every
  compressed member, since under a codec each call writes a member of its own. (Under
  the tar codec the library compresses an archive whose name ends in \<^verbatim>\<open>.gz\<close>, \<^verbatim>\<open>.bz2\<close> or
  \<^verbatim>\<open>.xz\<close> and then fails to append to it; the model does not follow the library that
  far, and the statements about a strategy's sequence of writes to a destination given by
  the caller leave the tar codec out, see \<open>writes_tar\<close>.)
\<close>

definition csv_lines :: "bool \<Rightarrow> DataFrame \<Rightarrow> segment list" where
  "csv_lines header d = (if header then [HeaderLine (columns d)] else []) @ map DataLine (rows d)"

definition to_csv ::
  "path \<Rightarrow> mode \<Rightarrow> bool \<Rightarrow> string option \<Rightarrow> DataFrame \<Rightarrow> fsys \<Rightarrow> (error + unit) \<times> fsys" where
  "to_csv p m header compression d s =
     (let s' = s\<lparr>io := io s @ [ToCsv p m header compression d]\<rparr>
      in case infer_compression p compression of
           Inl e \<Rightarrow> (Inl e, s')
         | Inr codec \<Rightarrow>
             (let content = (if codec \<noteq> None \<or> previous m p (files s) = [] then [BOM] else [])
                              @ csv_lines header d
              in (Inr (), s'\<lparr>files := write_file m p (pack codec content) (files s)\<rparr>)))"

section \<open>Format strategies (strategies/saver\_strategy.py)\<close>

text \<open>
  A strategy's \<open>save\<close> runs on the file system and on the state \<open>'m\<close> its metrics
  callback updates. \<^verbatim>\<open>if metrics_callback: metrics_callback(len(chunk))\<close> is \<open>call\<close>.
  The log lines the strategies write are left out; they decide nothing.
\<close>

definition call :: "(int \<Rightarrow> 'm \<Rightarrow> 'm) option \<Rightarrow> int \<Rightarrow> 'm \<Rightarrow> 'm" where
  "call cb n m = (case cb of None \<Rightarrow> m | Some f \<Rightarrow> f n m)"

text \<open>
  \<^verbatim>\<open>CsvSaver.save\<close>. The loop carries \<^verbatim>\<open>total_rows\<close>, \<^verbatim>\<open>mode\<close> and \<^verbatim>\<open>header\<close>.
\<close>

fun CsvSaver_loop ::
  "path \<Rightarrow> string option \<Rightarrow> (int \<Rightarrow> 'm \<Rightarrow> 'm) option \<Rightarrow> DataFrame list \<Rightarrow>
   int \<times> mode \<times> bool \<Rightarrow> fsys \<times> 'm \<Rightarrow> (error + int) \<times> fsys \<times> 'm" where
  "CsvSaver_loop filepath compression cb [] (total_rows, m, header) st = (Inr total_rows, st)"
| "CsvSaver_loop filepath compression cb (chunk # rest) (total_rows, m, header) (s, ms) =
     (if df_empty chunk
      then CsvSaver_loop filepath compression cb rest (total_rows, m, header) (s, ms)
      else (case to_csv filepath m header compression chunk s of
              (Inl e, s') \<Rightarrow> (Inl e, s', ms)
            | (Inr u, s') \<Rightarrow>
                CsvSaver_loop filepath compression cb rest
                  (total_rows + df_len chunk, A, False)
                  (s', call cb (df_len chunk) ms)))"

definition CsvSaver_save ::
  "data \<Rightarrow> path \<Rightarrow> string option \<Rightarrow> (int \<Rightarrow> 'm \<Rightarrow> 'm) option \<Rightarrow> fsys \<times> 'm \<Rightarrow>
   (error + int) \<times> fsys \<times> 'm" where
  "CsvSaver_save dat filepath compression cb st =
     (let compression = normalize_compression compression;
          s = unlink filepath (fst st);
          compression = (if compression = Some ''infer'' then None else compression)
      in CsvSaver_loop filepath compression cb (iter_chunks dat) (0, W, True) (s, snd st))"

text \<open>
  \<^verbatim>\<open>pd.ExcelWriter(filepath, engine='openpyxl')\<close> used as a context manager. Opening the
  session opens the destination for writing, which creates or truncates the file. The
  workbook starts without a sheet (the engine's default sheet is removed when the writer is
  created). Leaving the \<^verbatim>\<open>with\<close> block saves the workbook; the engine refuses to save a
  workbook that has no visible sheet and raises \<^verbatim>\<open>IndexError\<close>.
\<close>

record writer =
  wpath :: path
  book :: "(string \<times> sheet) list"

definition ExcelWriter_open :: "path \<Rightarrow> fsys \<Rightarrow> writer \<times> fsys" where
  "ExcelWriter_open p s =
     (\<lparr>wpath = p, book = []\<rparr>,
      s\<lparr>files := (files s)(p \<mapsto> []), io := io s @ [OpenWriter p]\<rparr>)"

definition ExcelWriter_close :: "writer \<Rightarrow> fsys \<Rightarrow> (error + unit) \<times> fsys" where
  "ExcelWriter_close w s =
     (if book w = []
      then (Inl NoVisibleSheetError, s\<lparr>io := io s @ [CloseWriter (wpath w)]\<rparr>)
      else (Inr (),
            s\<lparr>files := (files s)(wpath w \<mapsto> [Workbook (book w)]),
              io := io s @ [CloseWriter (wpath w)]\<rparr>))"

text \<open>
  \<^verbatim>\<open>chunk.to_excel(writer, sheet_name, index=False, startrow=startrow)\<close>: with the default
  \<^verbatim>\<open>header=True\<close> the column names go to sheet row \<open>startrow\<close> and data row \<open>i\<close> goes to
  sheet row \<open>startrow + 1 + i\<close>. A sheet of that name already in the session is written
  into, cell by cell.
\<close>

definition header_cells :: "nat \<Rightarrow> DataFrame \<Rightarrow> ((nat \<times> nat) \<times> string) list" where
  "header_cells startrow d = map (\<lambda>(j, name). ((startrow, j), name)) (enumerate 0 (columns d))"

definition data_cells :: "nat \<Rightarrow> DataFrame \<Rightarrow> ((nat \<times> nat) \<times> string) list" where
  "data_cells startrow d =
     concat (map (\<lambda>(i, r). map (\<lambda>(j, v). ((startrow + 1 + i, j), v)) (enumerate 0 r))
                 (enumerate 0 (rows d)))"

definition excel_cells :: "nat \<Rightarrow> DataFrame \<Rightarrow> ((nat \<times> nat) \<times> string) list" where
  "excel_cells startrow d = header_cells startrow d @ data_cells startrow d"

definition write_cells :: "((nat \<times> nat) \<times> string) list \<Rightarrow> sheet \<Rightarrow> sheet" where
  "write_cells cells sh = foldl (\<lambda>sh (pos, v). AList.update pos v sh) sh cells"

definition to_excel :: "writer \<Rightarrow> string \<Rightarrow> nat \<Rightarrow> DataFrame \<Rightarrow> fsys \<Rightarrow> writer \<times> fsys" where
  "to_excel w sheet_name startrow d s =
     (let sh = (case map_of (book w) sheet_name of None \<Rightarrow> [] | Some sh \<Rightarrow> sh)
      in (w\<lparr>book := AList.update sheet_name (write_cells (excel_cells startrow d) sh) (book w)\<rparr>,
          s\<lparr>io := io s @ [ToExcel (wpath w) sheet_name startrow d]\<rparr>))"

text \<open>
  \<^verbatim>\<open>ExcelSaver.save\<close>. The loop carries \<^verbatim>\<open>startrow\<close> and \<^verbatim>\<open>total_rows\<close>.
\<close>

fun ExcelSaver_loop ::
  "(int \<Rightarrow> 'm \<Rightarrow> 'm) option \<Rightarrow> DataFrame list \<Rightarrow> nat \<times> int \<Rightarrow> writer \<times> fsys \<times> 'm \<Rightarrow>
   int \<times> writer \<times> fsys \<times> 'm" where
  "ExcelSaver_loop cb [] (startrow, total_rows) st = (total_rows, st)"
| "ExcelSaver_loop cb (chunk # rest) (startrow, total_rows) (w, s, ms) =
     (if df_empty chunk
      then ExcelSaver_loop cb rest (startrow, total_rows) (w, s, ms)
      else (let (w', s') = to_excel w ''Data'' startrow chunk s
            in ExcelSaver_loop cb rest
                 (startrow + nat (df_len chunk), total_rows + df_len chunk)
                 (w', s', call cb (df_len chunk) ms)))"

definition ExcelSaver_save ::
  "data \<Rightarrow> path \<Rightarrow> string option \<Rightarrow> (int \<Rightarrow> 'm \<Rightarrow> 'm) option \<Rightarrow> fsys \<times> 'm \<Rightarrow>
   (error + int) \<times> fsys \<times> 'm" where
  "ExcelSaver_save dat filepath compression cb st =
     (let compression = normalize_compression compression
      in if truthy compression \<and> compression \<noteq> Some ''infer''
         then (Inl ExcelCompressionError, st)
         else (let (w, s) = ExcelWriter_open filepath (fst st);
                   (total_rows, w', s', ms') =
                      ExcelSaver_loop cb (iter_chunks dat) (0, 0) (w, s, snd st)
               in case ExcelWriter_close w' s' of
                    (Inl e, s'') \<Rightarrow> (Inl e, s'', ms')
                  | (Inr u, s'') \<Rightarrow> (Inr total_rows, s'', ms')))"

text \<open>
  \<^verbatim>\<open>chunk.to_json(filepath, orient='records', lines=True, compression, mode)\<close> writes one
  record per row. It raises \<^verbatim>\<open>ValueError\<close> on column names that are not unique, before it
  looks at the codec or the destination. \<^verbatim>\<open>JsonSaver.save\<close> carries \<^verbatim>\<open>total_rows\<close> and
  \<^verbatim>\<open>mode\<close>.
\<close>

definition json_lines :: "DataFrame \<Rightarrow> segment list" where
  "json_lines d = map (\<lambda>r. JsonLine (zip (columns d) r)) (rows d)"

definition to_json ::
  "path \<Rightarrow> mode \<Rightarrow> string option \<Rightarrow> DataFrame \<Rightarrow> fsys \<Rightarrow> (error + unit) \<times> fsys" where
  "to_json p m compression d s =
     (let s' = s\<lparr>io := io s @ [ToJson p m compression d]\<rparr>
      in if \<not> distinct (columns d) then (Inl NonUniqueColumnsError, s')
         else (case infer_compression p compression of
                 Inl e \<Rightarrow> (Inl e, s')
               | Inr codec \<Rightarrow>
                   (Inr (), s'\<lparr>files := write_file m p (pack codec (json_lines d)) (files s)\<rparr>)))"

fun JsonSaver_loop ::
  "path \<Rightarrow> string option \<Rightarrow> (int \<Rightarrow> 'm \<Rightarrow> 'm) option \<Rightarrow> DataFrame list \<Rightarrow>
   int \<times> mode \<Rightarrow> fsys \<times> 'm \<Rightarrow> (error + int) \<times> fsys \<times> 'm" where
  "JsonSaver_loop filepath compression cb [] (total_rows, m) st = (Inr total_rows, st)"
| "JsonSaver_loop filepath compression cb (chunk # rest) (total_rows, m) (s, ms) =
     (if df_empty chunk
      then JsonSaver_loop filepath compression cb rest (total_rows, m) (s, ms)
      else (case to_json filepath m compression chunk s of
              (Inl e, s') \<Rightarrow> (Inl e, s', ms)
            | (Inr u, s') \<Rightarrow>
                JsonSaver_loop filepath compression cb rest
                  (total_rows + df_len chunk, A)
                  (s', call cb (df_len chunk) ms)))"

definition JsonSaver_save ::
  "data \<Rightarrow> path \<Rightarrow> string option \<Rightarrow> (int \<Rightarrow> 'm \<Rightarrow> 'm) option \<Rightarrow> fsys \<times> 'm \<Rightarrow>
   (error + int) \<times> fsys \<times> 'm" where
  "JsonSaver_save dat filepath compression cb st =
     (let compression = normalize_compression compression
      in JsonSaver_loop filepath compression cb (iter_chunks dat) (0, W) st)"

text \<open>
  \<^verbatim>\<open>chunk.to_parquet(filepath, compression, index=False)\<close> writes the whole file anew. It
  raises \<^verbatim>\<open>ValueError\<close> on column names that are not unique while it builds the table,
  before it touches the destination; it then opens the destination, which creates or
  truncates the file, and the writer raises on a codec name that, in capitals, is none of
  those it knows. \<^verbatim>\<open>ParquetSaver.save\<close> hands the compression value over as it got it.
\<close>

definition parquet_codec_ok :: "string option \<Rightarrow> bool" where
  "parquet_codec_ok compression =
     (case compression of
        None \<Rightarrow> True
      | Some z \<Rightarrow> upper z \<in> set [''NONE'', ''SNAPPY'', ''GZIP'', ''LZ4'', ''ZSTD'', ''BROTLI''])"

definition to_parquet ::
  "path \<Rightarrow> string option \<Rightarrow> DataFrame \<Rightarrow> fsys \<Rightarrow> (error + unit) \<times> fsys" where
  "to_parquet p compression d s =
     (let s' = s\<lparr>io := io s @ [ToParquet p compression d]\<rparr>
      in if \<not> distinct (columns d) then (Inl (DuplicateColumnsError (columns d)), s')
         else if \<not> parquet_codec_ok compression
         then (Inl (UnsupportedCompressionError (case compression of None \<Rightarrow> [] | Some z \<Rightarrow> z)),
               s'\<lparr>files := (files s)(p \<mapsto> [])\<rparr>)
         else (Inr (), s'\<lparr>files := (files s)(p \<mapsto> [ParquetTable d])\<rparr>))"

fun ParquetSaver_loop ::
  "path \<Rightarrow> string option \<Rightarrow> (int \<Rightarrow> 'm \<Rightarrow> 'm) option \<Rightarrow> DataFrame list \<Rightarrow>
   int \<Rightarrow> fsys \<times> 'm \<Rightarrow> (error + int) \<times> fsys \<times> 'm" where
  "ParquetSaver_loop filepath compression cb [] total_rows st = (Inr total_rows, st)"
| "ParquetSaver_loop filepath compression cb (chunk # rest) total_rows (s, ms) =
     (if df_empty chunk
      then ParquetSaver_loop filepath compression cb rest total_rows (s, ms)
      else (case to_parquet filepath compression chunk s of
              (Inl e, s') \<Rightarrow> (Inl e, s', ms)
            | (Inr u, s') \<Rightarrow>
                ParquetSaver_loop filepath compression cb rest
                  (total_rows + df_len chunk)
                  (s', call cb (df_len chunk) ms)))"

definition ParquetSaver_save ::
  "data \<Rightarrow> path \<Rightarrow> string option \<Rightarrow> (int \<Rightarrow> 'm \<Rightarrow> 'm) option \<Rightarrow> fsys \<times> 'm \<Rightarrow>
   (error + int) \<times> fsys \<times> 'm" where
  "ParquetSaver_save dat filepath compression cb st =
     ParquetSaver_loop filepath compression cb (iter_chunks dat) 0 st"

text \<open>
  The strategy registry of \<^verbatim>\<open>modules/containers.py\<close> (\<^verbatim>\<open>saver_strategy_map\<close>) and the
  dispatch of \<^verbatim>\<open>saver.save\<close> on the strategy's class.
\<close>

datatype saver = CsvSaver | ExcelSaver | JsonSaver | ParquetSaver

definition saver_strategy_map :: "string \<rightharpoonup> saver" where
  "saver_strategy_map =
     [''csv'' \<mapsto> CsvSaver, ''xlsx'' \<mapsto> ExcelSaver, ''json'' \<mapsto> JsonSaver,
      ''parquet'' \<mapsto> ParquetSaver]"

definition save ::
  "saver \<Rightarrow> data \<Rightarrow> path \<Rightarrow> string option \<Rightarrow> (int \<Rightarrow> 'm \<Rightarrow> 'm) option \<Rightarrow> fsys \<times> 'm \<Rightarrow>
   (error + int) \<times> fsys \<times> 'm" where
  "save sv =
     (case sv of
        CsvSaver \<Rightarrow> CsvSaver_save
      | ExcelSaver \<Rightarrow> ExcelSaver_save
      | JsonSaver \<Rightarrow> JsonSaver_save
      | ParquetSaver \<Rightarrow> ParquetSaver_save)"

text \<open>The batches a strategy does not skip, in order.\<close>

definition nonempty :: "DataFrame list \<Rightarrow> DataFrame list" where
  "nonempty chunks = filter (\<lambda>c. \<not> df_empty c) chunks"

section \<open>Notification dispatch (modules/notifications.py)\<close>

text \<open>
  \<^verbatim>\<open>int(s)\<close> on a string: surrounding whitespace, an optional sign, then decimal digits
  with single underscores allowed between digits. \<open>None\<close> stands for \<^verbatim>\<open>ValueError\<close>.
  On a string of ASCII characters only, the whitespace is that of C (tab to carriage
  return, and the space); on any other string every character of \<open>isspace\<close> counts.
\<close>

definition int_space :: "string \<Rightarrow> char \<Rightarrow> bool" where
  "int_space s c =
     (if list_all (\<lambda>x. (of_char x :: nat) < 128) s
      then (of_char c :: nat) \<in> {9, 10, 11, 12, 13, 32}
      else isspace c)"

definition is_digit :: "char \<Rightarrow> bool" where
  "is_digit c = (48 \<le> (of_char c :: nat) \<and> (of_char c :: nat) \<le> 57)"

fun digits_ok :: "string \<Rightarrow> bool" where
  "digits_ok [] = False"
| "digits_ok [c] = is_digit c"
| "digits_ok (c # d # r) =
     (is_digit c \<and> (if d = CHR ''_'' then digits_ok r else digits_ok (d # r)))"

definition digits_value :: "string \<Rightarrow> int" where
  "digits_value ds =
     foldl (\<lambda>acc c. 10 * acc + (of_char c - 48)) 0 (filter (\<lambda>c. c \<noteq> CHR ''_'') ds)"

definition py_int :: "string \<Rightarrow> int option" where
  "py_int s =
     (let t = rev (dropWhile (int_space s) (rev (dropWhile (int_space s) s)));
          (sgn, ds) =
             (case t of
                [] \<Rightarrow> (1, [])
              | c # r \<Rightarrow> if c = CHR ''-'' then (- 1, r)
                         else if c = CHR ''+'' then (1, r) else (1, t))
      in if digits_ok ds then Some (sgn * digits_value ds) else None)"

text \<open>
  The channel handlers. \<open>Observer\<close> is the interface class, whose \<^verbatim>\<open>update\<close> raises
  \<^verbatim>\<open>NotImplementedError\<close>; the two channels hold the configuration their constructors
  read from the environment.
\<close>

record email_config =
  smtp_server :: "string option"
  smtp_port :: int
  user :: "string option"
  password :: "string option"
  sender :: "string option"
  recipient :: "string option"

record tg_config =
  token :: "string option"
  chat_id :: "string option"

datatype observer = Observer | EmailObserver email_config | TelegramObserver tg_config

text \<open>The keyword arguments of \<^verbatim>\<open>notify\<close> and \<^verbatim>\<open>update\<close> that the handlers read.\<close>

record kwargs =
  subject :: "string option"
  body :: "string option"
  attachment_path :: "string option"

datatype delivery =
    Email email_config string string "segment list option"
  | Telegram tg_config string

datatype log_entry =
    LogInfo string
  | LogWarning string
  | LogError string error
  | LogMetrics nat int

text \<open>
  What lies outside the process: the logger's output, the environment variables, the
  clock (\<open>now\<close> is \<^verbatim>\<open>datetime.now().strftime('%d.%m.%Y_%H-%M-%S')\<close>, \<open>time\<close> is
  \<^verbatim>\<open>time.time()\<close>), the memory probe \<^verbatim>\<open>memory_usage(...)\<close>, whether the mail server and the
  messaging API accept a delivery, the deliveries made, and the calls of \<^verbatim>\<open>update\<close> in the
  order they happened.
\<close>

record world =
  log :: "log_entry list"
  getenv :: "string \<rightharpoonup> string"
  now :: string
  time :: nat
  memory :: nat
  smtp_ok :: bool
  http_ok :: bool
  outbox :: "delivery list"
  updates :: "(observer \<times> string) list"

definition logger :: "log_entry \<Rightarrow> world \<Rightarrow> world" where
  "logger entry w = w\<lparr>log := log w @ [entry]\<rparr>"

text \<open>
  \<^verbatim>\<open>EmailObserver.__init__\<close>: \<^verbatim>\<open>int(os.getenv('EMAIL_SMTP_PORT', 465))\<close> raises on a value
  that is not a number. \<^verbatim>\<open>TelegramObserver.__init__\<close> only reads.
\<close>

definition EmailObserver_init :: "world \<Rightarrow> error + observer" where
  "EmailObserver_init w =
     (case (case getenv w ''EMAIL_SMTP_PORT'' of None \<Rightarrow> Some 465 | Some s \<Rightarrow> py_int s) of
        None \<Rightarrow> Inl (IntParseError (the (getenv w ''EMAIL_SMTP_PORT'')))
      | Some port \<Rightarrow>
          Inr (EmailObserver
                 \<lparr>smtp_server = getenv w ''EMAIL_SMTP_SERVER'',
                  smtp_port = port,
                  user = getenv w ''EMAIL_USER'',
                  password = getenv w ''EMAIL_PASSWORD'',
                  sender = getenv w ''EMAIL_SENDER'',
                  recipient = getenv w ''EMAIL_RECIPIENT''\<rparr>))"

definition TelegramObserver_init :: "world \<Rightarrow> observer" where
  "TelegramObserver_init w =
     TelegramObserver
       \<lparr>token = getenv w ''TELEGRAM_BOT_TOKEN'', chat_id = getenv w ''TELEGRAM_CHAT_ID''\<rparr>"

text \<open>\<^verbatim>\<open>all(self.email_config.values())\<close> and \<^verbatim>\<open>all(self.tg_config.values())\<close>\<close>

definition email_config_complete :: "email_config \<Rightarrow> bool" where
  "email_config_complete c =
     (truthy (smtp_server c) \<and> smtp_port c \<noteq> 0 \<and> truthy (user c) \<and> truthy (password c) \<and>
      truthy (sender c) \<and> truthy (recipient c))"

definition tg_config_complete :: "tg_config \<Rightarrow> bool" where
  "tg_config_complete c = (truthy (token c) \<and> truthy (chat_id c))"

text \<open>
  \<^verbatim>\<open>EmailObserver._attach_file\<close> reads the file and raises when it cannot be opened, after
  logging a warning. \<open>EmailObserver_send\<close> is the body of the \<^verbatim>\<open>try\<close> block of
  \<^verbatim>\<open>EmailObserver.update\<close>, \<open>TelegramObserver_send\<close> that of \<^verbatim>\<open>TelegramObserver.update\<close>.
\<close>

definition attach_file :: "string \<Rightarrow> fsys \<Rightarrow> world \<Rightarrow> (error + segment list) \<times> world" where
  "attach_file file_path s w =
     (case files s file_path of
        None \<Rightarrow> (Inl (FileNotFoundError file_path), logger (LogWarning ''attachment error'') w)
      | Some content \<Rightarrow> (Inr content, w))"

definition EmailObserver_send ::
  "email_config \<Rightarrow> string \<Rightarrow> string \<Rightarrow> string option \<Rightarrow> fsys \<Rightarrow> world \<Rightarrow> (error + unit) \<times> world" where
  "EmailObserver_send c subj message ap s w =
     (case (case ap of
              None \<Rightarrow> (Inr None, w)
            | Some p \<Rightarrow> if p = [] then (Inr None, w)
                        else (case attach_file p s w of
                                (Inl e, w') \<Rightarrow> (Inl e, w')
                              | (Inr content, w') \<Rightarrow> (Inr (Some content), w'))) of
        (Inl e, w') \<Rightarrow> (Inl e, w')
      | (Inr att, w') \<Rightarrow>
          if smtp_ok w'
          then (Inr (), w'\<lparr>outbox := outbox w' @ [Email c subj message att]\<rparr>)
          else (Inl TransportError, w'))"

definition EmailObserver_update ::
  "email_config \<Rightarrow> string \<Rightarrow> kwargs \<Rightarrow> fsys \<Rightarrow> world \<Rightarrow> bool \<times> world" where
  "EmailObserver_update c message ctx s w =
     (let subj = (case subject ctx of None \<Rightarrow> ''Notification'' | Some x \<Rightarrow> x);
          ap = attachment_path ctx
      in if \<not> email_config_complete c
         then (False, logger (LogWarning ''email without full configuration'') w)
         else (case EmailObserver_send c subj message ap s w of
                 (Inl e, w') \<Rightarrow> (False, logger (LogWarning ''email error'') w')
               | (Inr u, w') \<Rightarrow> (True, logger (LogInfo ''email sent'') w')))"

definition TelegramObserver_send :: "tg_config \<Rightarrow> string \<Rightarrow> world \<Rightarrow> (error + unit) \<times> world" where
  "TelegramObserver_send c message w =
     (if http_ok w
      then (Inr (), w\<lparr>outbox := outbox w @ [Telegram c message]\<rparr>)
      else (Inl TransportError, w))"

definition TelegramObserver_update :: "tg_config \<Rightarrow> string \<Rightarrow> world \<Rightarrow> bool \<times> world" where
  "TelegramObserver_update c message w =
     (if \<not> tg_config_complete c
      then (False, logger (LogWarning ''telegram without full configuration'') w)
      else (case TelegramObserver_send c message w of
              (Inl e, w') \<Rightarrow> (False, logger (LogWarning ''telegram error'') w')
            | (Inr u, w') \<Rightarrow> (True, logger (LogInfo ''telegram sent'') w')))"

text \<open>
  \<^verbatim>\<open>observer.update(message, **kwargs)\<close>, dispatched on the handler's class; the call is
  recorded in \<open>updates\<close>.
\<close>

definition update :: "observer \<Rightarrow> string \<Rightarrow> kwargs \<Rightarrow> fsys \<Rightarrow> world \<Rightarrow> (error + bool) \<times> world" where
  "update ob message ctx s w =
     (let w = w\<lparr>updates := updates w @ [(ob, message)]\<rparr>
      in case ob of
           Observer \<Rightarrow> (Inl NotImplementedError, w)
         | EmailObserver c \<Rightarrow>
             (let (b, w') = EmailObserver_update c message ctx s w in (Inr b, w'))
         | TelegramObserver c \<Rightarrow>
             (let (b, w') = TelegramObserver_update c message w in (Inr b, w')))"

text \<open>
  \<^verbatim>\<open>NotificationSubject\<close>: the list of attached handlers, \<^verbatim>\<open>attach\<close>, and \<^verbatim>\<open>notify\<close>, a
  plain loop over the handlers with no handler of its own for what \<^verbatim>\<open>update\<close> raises.
\<close>

definition attach :: "observer \<Rightarrow> observer list \<Rightarrow> observer list" where
  "attach ob observers = (if ob \<in> set observers then observers else observers @ [ob])"

fun notify :: "observer list \<Rightarrow> string \<Rightarrow> kwargs \<Rightarrow> fsys \<Rightarrow> world \<Rightarrow> (error + unit) \<times> world" where
  "notify [] message ctx s w = (Inr (), w)"
| "notify (ob # observers) message ctx s w =
     (case update ob message ctx s w of
        (Inl e, w') \<Rightarrow> (Inl e, w')
      | (Inr b, w') \<Rightarrow> notify observers message ctx s w')"

section \<open>The orchestrator's state\<close>

text \<open>
  The attributes of \<^verbatim>\<open>ETLBase\<close> that its methods read or write, the metrics dictionary,
  and the whole state a method runs on: the object, the file system and the outside world.
\<close>

record metrics =
  start_time :: "nat option"
  memory_usage :: "nat list"
  rows_processed :: int

record etl =
  export_format :: string
  compression :: "string option"
  exports_path :: path
  send_email :: bool
  send_telegram :: bool
  filename :: "path option"
  metrics :: metrics

record sys =
  self :: etl
  fs :: fsys
  ext :: world

section \<open>Error handling decorators (modules/decorators.py)\<close>

text \<open>
  A decorated method is a function from the state to an outcome and the state it leaves;
  what it changed before raising stays changed. \<open>error_text\<close> is \<^verbatim>\<open>str(e)\<close>.
\<close>

fun error_text :: "error \<Rightarrow> string" where
  "error_text ExcelCompressionError = ''Excel format doesn't support compression''"
| "error_text NoDataError = ''no data to save''"
| "error_text (KeyError k) = CHR 0x27 # k @ [CHR 0x27]"
| "error_text NoVisibleSheetError = ''At least one sheet must be visible''"
| "error_text (UnrecognizedCompressionError z) =
     ''Unrecognized compression type: '' @ z @ [CHR 0x0A] @
     ''Valid compression types are ['infer', None, 'bz2', 'gzip', 'tar', 'xz', 'zip', 'zstd']''"
| "error_text (UnsupportedCompressionError z) = ''Unsupported compression: '' @ z"
| "error_text NonUniqueColumnsError = ''DataFrame columns must be unique for orient='records'.''"
| "error_text (DuplicateColumnsError cs) =
     ''Duplicate column names found: ['' @
     concat (map (\<lambda>(i, c). (if i = 0 then [] else '', '') @ CHR 0x27 # c @ [CHR 0x27]) (enumerate 0 cs)) @
     '']''"
| "error_text (IntParseError v) =
     ''invalid literal for int() with base 10: '' @ CHR 0x27 # v @ [CHR 0x27]"
| "error_text NotImplementedError = []"
| "error_text (FileNotFoundError f) = f"
| "error_text TransportError = ''transport error''"
| "error_text (SourceError m) = m"

text \<open>
  \<^verbatim>\<open>RetryDecorator\<close>: up to \<open>retries + 1\<close> attempts, the last failure is raised again.
\<close>

fun RetryDecorator :: "nat \<Rightarrow> (sys \<Rightarrow> (error + 'a) \<times> sys) \<Rightarrow> sys \<Rightarrow> (error + 'a) \<times> sys" where
  "RetryDecorator 0 func st = func st"
| "RetryDecorator (Suc retries) func st =
     (case func st of
        (Inl e, st') \<Rightarrow> RetryDecorator retries func st'
      | (Inr v, st') \<Rightarrow> (Inr v, st'))"

text \<open>\<^verbatim>\<open>LoggingDecorator\<close>: logs the error and raises it again.\<close>

definition LoggingDecorator ::
  "string option \<Rightarrow> string \<Rightarrow> (sys \<Rightarrow> (error + 'a) \<times> sys) \<Rightarrow> sys \<Rightarrow> (error + 'a) \<times> sys" where
  "LoggingDecorator log_message name func st =
     (case func st of
        (Inl e, st') \<Rightarrow>
          (let error_msg = (case log_message of
                              None \<Rightarrow> ''Error in '' @ name
                            | Some m \<Rightarrow> if m = [] then ''Error in '' @ name else m)
           in (Inl e, st'\<lparr>ext := logger (LogError error_msg e) (ext st')\<rparr>))
      | (Inr v, st') \<Rightarrow> (Inr v, st'))"

text \<open>
  \<^verbatim>\<open>NotificationDecorator\<close>: on an error, notifies a fresh subject with one Telegram handler
  and raises the error again; an error raised by the notification itself would take its
  place.
\<close>

definition NotificationDecorator ::
  "bool \<Rightarrow> string \<Rightarrow> (sys \<Rightarrow> (error + 'a) \<times> sys) \<Rightarrow> sys \<Rightarrow> (error + 'a) \<times> sys" where
  "NotificationDecorator notify_flag name func st =
     (case func st of
        (Inl e, st') \<Rightarrow>
          if notify_flag
          then (let observers = attach (TelegramObserver_init (ext st')) []
                in case notify observers (''Error in '' @ name @ '': '' @ error_text e)
                          \<lparr>subject = None, body = None, attachment_path = None\<rparr>
                          (fs st') (ext st') of
                     (Inl e', w') \<Rightarrow> (Inl e', st'\<lparr>ext := w'\<rparr>)
                   | (Inr u, w') \<Rightarrow> (Inl e, st'\<lparr>ext := w'\<rparr>))
          else (Inl e, st')
      | (Inr v, st') \<Rightarrow> (Inr v, st'))"

text \<open>
  \<^verbatim>\<open>error_handler(log_message, notify, retries)\<close> applied to the function called \<open>name\<close>:
  the notification wrapper is outermost, the retry wrapper innermost.
\<close>

definition error_handler ::
  "string option \<Rightarrow> bool \<Rightarrow> nat \<Rightarrow> string \<Rightarrow> (sys \<Rightarrow> (error + 'a) \<times> sys) \<Rightarrow>
   sys \<Rightarrow> (error + 'a) \<times> sys" where
  "error_handler log_message notify_flag retries name func =
     NotificationDecorator notify_flag name
       (LoggingDecorator log_message name (RetryDecorator retries func))"

section \<open>The pipeline orchestrator (etl/etl\_base.py)\<close>

definition build_filename :: "etl \<Rightarrow> world \<Rightarrow> string" where
  "build_filename e w =
     (let c = normalize_compression (compression e);
          suffix = (case c of
                      None \<Rightarrow> []
                    | Some x \<Rightarrow> if x \<noteq> [] \<and> x \<noteq> ''none'' then ''.'' @ x else [])
      in ''export_'' @ now w @ ''.'' @ export_format e @ suffix)"

text \<open>\<^verbatim>\<open>self.exports_path / name\<close>, for a directory path written without a trailing slash.\<close>

definition generate_filename :: "etl \<Rightarrow> world \<Rightarrow> path" where
  "generate_filename e w = exports_path e @ ''/'' @ build_filename e w"

text \<open>\<^verbatim>\<open>Path(p).name\<close>\<close>

definition basename :: "path \<Rightarrow> string" where
  "basename p = rev (takeWhile (\<lambda>c. c \<noteq> CHR ''/'') (rev p))"

text \<open>\<^verbatim>\<open>ETLBase._update_metrics\<close>, the callback \<^verbatim>\<open>load\<close> hands to the strategy.\<close>

definition update_metrics :: "int \<Rightarrow> etl \<times> world \<Rightarrow> etl \<times> world" where
  "update_metrics n ew =
     (case ew of
        (e, w) \<Rightarrow>
          (e\<lparr>metrics := (metrics e)\<lparr>rows_processed := rows_processed (metrics e) + n,
                                    memory_usage := memory_usage (metrics e) @ [memory w]\<rparr>\<rparr>,
           w))"

text \<open>
  \<^verbatim>\<open>ETLBase.load\<close>: \<open>load_body\<close> is the method as written, \<open>load\<close> the method under its
  decorator. The parameter \<open>metrics_callback\<close> is the caller's.
\<close>

definition load_body ::
  "data \<Rightarrow> (int \<Rightarrow> etl \<times> world \<Rightarrow> etl \<times> world) option \<Rightarrow> sys \<Rightarrow> (error + unit) \<times> sys" where
  "load_body dat metrics_callback st =
     (case saver_strategy_map (export_format (self st)) of
        None \<Rightarrow> (Inl (KeyError (export_format (self st))), st)
      | Some sv \<Rightarrow>
          (let fn = generate_filename (self st) (ext st);
               e = (self st)\<lparr>filename := Some fn\<rparr>
           in case save sv dat fn (compression e) (Some update_metrics) (fs st, e, ext st) of
                (r, s', e', w') \<Rightarrow>
                  (case r of
                     Inl err \<Rightarrow> (Inl err, \<lparr>self = e', fs = s', ext = w'\<rparr>)
                   | Inr total_rows \<Rightarrow>
                       if total_rows = 0
                       then (Inl NoDataError, \<lparr>self = e', fs = s', ext = w'\<rparr>)
                       else (Inr (),
                             \<lparr>self = e', fs = s', ext = logger (LogInfo ''data saved'') w'\<rparr>))))"

definition load ::
  "data \<Rightarrow> (int \<Rightarrow> etl \<times> world \<Rightarrow> etl \<times> world) option \<Rightarrow> sys \<Rightarrow> (error + unit) \<times> sys" where
  "load dat metrics_callback =
     error_handler (Some ''data load error'') True 0 ''load'' (load_body dat metrics_callback)"

text \<open>\<^verbatim>\<open>ETLBase._send_report\<close>, as written and under its decorator.\<close>

definition send_report_body :: "sys \<Rightarrow> (error + unit) \<times> sys" where
  "send_report_body st =
     (case filename (self st) of
        None \<Rightarrow> (Inr (), st)
      | Some fn \<Rightarrow>
          if files (fs st) fn = None then (Inr (), st)
          else (case (if send_email (self st)
                      then (case EmailObserver_init (ext st) of
                              Inl e \<Rightarrow> Inl e
                            | Inr ob \<Rightarrow> Inr (attach ob []))
                      else Inr []) of
                  Inl e \<Rightarrow> (Inl e, st)
                | Inr observers \<Rightarrow>
                    (let observers =
                           (if send_telegram (self st)
                            then attach (TelegramObserver_init (ext st)) observers
                            else observers)
                     in case notify observers (''ETL finished. File: '' @ basename fn)
                               \<lparr>subject = Some (''Data export '' @ basename fn),
                                body = Some (''Export file: '' @ basename fn),
                                attachment_path = Some fn\<rparr>
                               (fs st) (ext st) of
                          (r, w') \<Rightarrow> (r, st\<lparr>ext := w'\<rparr>))))"

definition send_report :: "sys \<Rightarrow> (error + unit) \<times> sys" where
  "send_report =
     error_handler (Some ''report sending error'') True 0 ''_send_report'' send_report_body"

text \<open>\<^verbatim>\<open>ETLBase._log_metrics\<close>: one log line with the peak memory sample and the row count.\<close>

definition log_metrics :: "sys \<Rightarrow> sys" where
  "log_metrics st =
     (let max_mem = foldr max (memory_usage (metrics (self st))) 0
      in st\<lparr>ext := logger (LogMetrics max_mem (rows_processed (metrics (self st)))) (ext st)\<rparr>)"

text \<open>
  \<^verbatim>\<open>try: body finally: fin\<close>: the cleanup runs on every exit of the body; when the cleanup
  raises, its error is the outcome, otherwise the body's outcome stands.
\<close>

definition try_finally ::
  "(sys \<Rightarrow> (error + 'a) \<times> sys) \<Rightarrow> (sys \<Rightarrow> (error + unit) \<times> sys) \<Rightarrow> sys \<Rightarrow> (error + 'a) \<times> sys" where
  "try_finally body_fn fin st =
     (case body_fn st of
        (r, st') \<Rightarrow>
          (case fin st' of
             (Inl e, st'') \<Rightarrow> (Inl e, st'')
           | (Inr u, st'') \<Rightarrow> (r, st'')))"

text \<open>
  \<^verbatim>\<open>ETLBase.run\<close>, as written and under its decorator. \<^verbatim>\<open>extract\<close> and \<^verbatim>\<open>transform\<close> are
  abstract in \<^verbatim>\<open>ETLBase\<close> and are parameters here.
\<close>

definition run_body ::
  "(sys \<Rightarrow> (error + data) \<times> sys) \<Rightarrow> (data \<Rightarrow> sys \<Rightarrow> (error + data) \<times> sys) \<Rightarrow>
   sys \<Rightarrow> (error + unit) \<times> sys" where
  "run_body extract transform st =
     (let st0 = st\<lparr>ext := logger (LogInfo ''run parameters'') (ext st)\<rparr>;
          st1 = st0\<lparr>self := (self st0)\<lparr>metrics :=
                   (metrics (self st0))\<lparr>start_time := Some (time (ext st0)),
                                          rows_processed := 0\<rparr>\<rparr>\<rparr>
      in try_finally
           (\<lambda>st. case extract st of
                    (Inl e, st') \<Rightarrow> (Inl e, st')
                  | (Inr d, st') \<Rightarrow>
                      (case transform d st' of
                         (Inl e, st'') \<Rightarrow> (Inl e, st'')
                       | (Inr d', st'') \<Rightarrow> load d' None st''))
           (\<lambda>st. case send_report st of
                    (Inl e, st') \<Rightarrow> (Inl e, st')
                  | (Inr u, st') \<Rightarrow> (Inr (), log_metrics st'))
           st1)"

definition run ::
  "(sys \<Rightarrow> (error + data) \<times> sys) \<Rightarrow> (data \<Rightarrow> sys \<Rightarrow> (error + data) \<times> sys) \<Rightarrow>
   sys \<Rightarrow> (error + unit) \<times> sys" where
  "run extract transform =
     error_handler (Some ''ETL run error'') True 0 ''run'' (run_body extract transform)"

section \<open>Notions the properties are stated with\<close>

text \<open>The batches handed to a write call of the library, in the order of the calls.\<close>

fun written_batch :: "io_event \<Rightarrow> DataFrame option" where
  "written_batch (ToCsv p m h c d) = Some d"
| "written_batch (ToExcel p n r d) = Some d"
| "written_batch (ToJson p m c d) = Some d"
| "written_batch (ToParquet p c d) = Some d"
| "written_batch (Unlink p) = None"
| "written_batch (OpenWriter p) = None"
| "written_batch (CloseWriter p) = None"

definition written :: "io_event list \<Rightarrow> DataFrame list" where
  "written evs = List.map_filter written_batch evs"

text \<open>
  The compression values the spreadsheet strategy lets pass: those that normalize to no
  compression, and \<^verbatim>\<open>'infer'\<close>.
\<close>

definition excel_accepts :: "string option \<Rightarrow> bool" where
  "excel_accepts c = (normalize_compression c = None \<or> normalize_compression c = Some ''infer'')"

text \<open>
  The compression value that reaches \<^verbatim>\<open>to_csv\<close> (the delimited-text strategy turns
  \<^verbatim>\<open>'infer'\<close> into no compression), and the values \<^verbatim>\<open>to_csv\<close> and \<^verbatim>\<open>to_json\<close> do not
  raise on.
\<close>

definition csv_codec :: "string option \<Rightarrow> string option" where
  "csv_codec c =
     (if normalize_compression c = Some ''infer'' then None else normalize_compression c)"

definition pandas_accepts :: "string option \<Rightarrow> bool" where
  "pandas_accepts c =
     (case c of None \<Rightarrow> True | Some z \<Rightarrow> z = ''infer'' \<or> z \<in> set supported_compressions)"

text \<open>
  Whether a strategy, given the compression value \<open>c\<close>, gets a batch written: its own
  guard and the checks of the library call it makes let the batch through. \<open>reported\<close>
  are the batches written before the first one that is not let through; they are the
  batches the metrics callback is called for.
\<close>

fun accepts :: "saver \<Rightarrow> string option \<Rightarrow> DataFrame \<Rightarrow> bool" where
  "accepts CsvSaver c d = pandas_accepts (csv_codec c)"
| "accepts ExcelSaver c d = excel_accepts c"
| "accepts JsonSaver c d = (distinct (columns d) \<and> pandas_accepts (normalize_compression c))"
| "accepts ParquetSaver c d = (distinct (columns d) \<and> parquet_codec_ok c)"

definition reported :: "saver \<Rightarrow> string option \<Rightarrow> DataFrame list \<Rightarrow> DataFrame list" where
  "reported sv c chunks = takeWhile (accepts sv c) (nonempty chunks)"

text \<open>
  Whether a strategy's writes to the destination \<open>fp\<close> go into a tar archive (for the
  line-delimited strategy \<^verbatim>\<open>'infer'\<close> may select it by the name of the destination).
\<close>

fun writes_tar :: "saver \<Rightarrow> path \<Rightarrow> string option \<Rightarrow> bool" where
  "writes_tar CsvSaver fp c = (infer_compression fp (csv_codec c) = Inr (Some ''tar''))"
| "writes_tar JsonSaver fp c = (infer_compression fp (normalize_compression c) = Inr (Some ''tar''))"
| "writes_tar ExcelSaver fp c = False"
| "writes_tar ParquetSaver fp c = False"

text \<open>
  A sample job for the concrete instances below: no file on disk, no environment variable
  set, both transports reachable, the given format and compression, no notification
  requested.
\<close>

definition sample_world :: world where
  "sample_world =
     \<lparr>log = [], getenv = Map.empty, now = ''03.11.2026_10-00-00'', time = 0, memory = 100,
      smtp_ok = True, http_ok = True, outbox = [], updates = []\<rparr>"

definition sample_etl :: "string \<Rightarrow> string option \<Rightarrow> etl" where
  "sample_etl fmt c =
     \<lparr>export_format = fmt, compression = c, exports_path = ''exports'',
      send_email = False, send_telegram = False, filename = None,
      metrics = \<lparr>start_time = None, memory_usage = [], rows_processed = 0\<rparr>\<rparr>"

definition sample_sys :: "string \<Rightarrow> string option \<Rightarrow> sys" where
  "sample_sys fmt c =
     \<lparr>self = sample_etl fmt c, fs = \<lparr>files = Map.empty, io = []\<rparr>, ext = sample_world\<rparr>"

text \<open>The two one-row batches of the specification's scenario.\<close>

definition batch_a :: DataFrame where
  "batch_a = \<lparr>columns = [''id'', ''name''], rows = [[''1'', ''a'']]\<rparr>"

definition batch_b :: DataFrame where
  "batch_b = \<lparr>columns = [''id'', ''name''], rows = [[''2'', ''b'']]\<rparr>"

definition batch_none :: DataFrame where
  "batch_none = \<lparr>columns = [''id'', ''name''], rows = []\<rparr>"

text \<open>
  Two further sample jobs: one that asks for the Telegram report, and one that asks for
  the e-mail report in an environment whose \<^verbatim>\<open>EMAIL_SMTP_PORT\<close> is not a number.
\<close>

definition telegram_job :: "string \<Rightarrow> sys" where
  "telegram_job fmt =
     \<lparr>self = (sample_etl fmt None)\<lparr>send_telegram := True\<rparr>,
      fs = \<lparr>files = Map.empty, io = []\<rparr>, ext = sample_world\<rparr>"

definition bad_port_job :: sys where
  "bad_port_job =
     \<lparr>self = (sample_etl ''csv'' None)\<lparr>send_email := True\<rparr>,
      fs = \<lparr>files = Map.empty, io = []\<rparr>,
      ext = sample_world\<lparr>getenv := [''EMAIL_SMTP_PORT'' \<mapsto> ''smtp'']\<rparr>\<rparr>"

section \<open>Facts about the strategies' loops\<close>

lemma nonempty_Nil [simp]: "nonempty [] = []"
  by (simp add: nonempty_def)

lemma nonempty_Cons_empty [simp]: "df_empty c \<Longrightarrow> nonempty (c # cs) = nonempty cs"
  by (simp add: nonempty_def)

lemma nonempty_Cons [simp]: "\<not> df_empty c \<Longrightarrow> nonempty (c # cs) = c # nonempty cs"
  by (simp add: nonempty_def)

lemma written_append [simp]: "written (xs @ ys) = written xs @ written ys"
  by (simp add: written_def List.map_filter_def)

lemma written_Nil [simp]: "written [] = []"
  by (simp add: written_def List.map_filter_def)

lemma written_Cons:
  "written (e # es) = (case written_batch e of None \<Rightarrow> written es | Some d \<Rightarrow> d # written es)"
  by (simp add: written_def List.map_filter_def split: option.splits)

lemma infer_compression_accepts:
  "pandas_accepts k \<Longrightarrow> \<exists>codec. infer_compression p k = Inr codec"
  by (cases k) (auto simp add: pandas_accepts_def infer_compression_def)

lemma infer_compression_rejects:
  "\<not> pandas_accepts k \<Longrightarrow> \<exists>e. infer_compression p k = Inl e"
  by (cases k) (auto simp add: pandas_accepts_def infer_compression_def)

subsection \<open>CSV\<close>

lemma to_csv_accepts:
  "pandas_accepts k \<Longrightarrow>
   \<exists>s'. to_csv p m h k d s = (Inr (), s') \<and> io s' = io s @ [ToCsv p m h k d]"
proof -
  assume "pandas_accepts k"
  then obtain codec where "infer_compression p k = Inr codec"
    using infer_compression_accepts by blast
  then show ?thesis by (simp add: to_csv_def Let_def)
qed

lemma to_csv_rejects: "\<not> pandas_accepts k \<Longrightarrow> \<exists>e s'. to_csv p m h k d s = (Inl e, s')"
proof -
  assume "\<not> pandas_accepts k"
  then obtain e where "infer_compression p k = Inl e"
    using infer_compression_rejects by blast
  then show ?thesis by (simp add: to_csv_def Let_def)
qed

lemma to_csv_plain:
  "to_csv p m h None d s =
     (Inr (), \<lparr>files = (files s)(p \<mapsto> previous m p (files s) @
                          (if previous m p (files s) = [] then [BOM] else []) @ csv_lines h d),
               io = io s @ [ToCsv p m h None d]\<rparr>)"
  by (simp add: to_csv_def infer_compression_def write_file_def pack_def Let_def)


lemma CsvSaver_loop_cb:
  "snd (snd (CsvSaver_loop fp k cb chunks (t, m, h) (s, ms))) =
     foldl (\<lambda>ms c. call cb (df_len c) ms) ms
       (takeWhile (\<lambda>d. pandas_accepts k) (nonempty chunks))"
proof (induction chunks arbitrary: t m h s ms)
  case Nil
  then show ?case by simp
next
  case (Cons c cs)
  show ?case
  proof (cases "df_empty c")
    case True
    then show ?thesis using Cons by simp
  next
    case False
    show ?thesis
    proof (cases "pandas_accepts k")
      case True
      then obtain s' where "to_csv fp m h k c s = (Inr (), s')"
        using to_csv_accepts by blast
      then show ?thesis using False True Cons by simp
    next
      case no: False
      then obtain e s' where "to_csv fp m h k c s = (Inl e, s')"
        using to_csv_rejects by blast
      then show ?thesis using False no by simp
    qed
  qed
qed


lemma CsvSaver_loop_io:
  "pandas_accepts k \<Longrightarrow>
   io (fst (snd (CsvSaver_loop fp k cb chunks (t, m, h) (s, ms)))) =
     io s @ (case nonempty chunks of
               [] \<Rightarrow> []
             | c # cs \<Rightarrow> ToCsv fp m h k c # map (ToCsv fp A False k) cs)"
proof (induction chunks arbitrary: t m h s ms)
  case Nil
  then show ?case by simp
next
  case (Cons c cs)
  show ?case
  proof (cases "df_empty c")
    case True
    then show ?thesis using Cons by simp
  next
    case False
    obtain s' where "to_csv fp m h k c s = (Inr (), s')" "io s' = io s @ [ToCsv fp m h k c]"
      using to_csv_accepts Cons.prems by blast
    then show ?thesis using False Cons by (simp split: list.splits)
  qed
qed


lemma csv_lines_False: "csv_lines False = (\<lambda>d. map DataLine (rows d))"
  by (rule ext) (simp add: csv_lines_def)

lemma CsvSaver_loop_files_append:
  "files s fp = Some old \<Longrightarrow> old \<noteq> [] \<Longrightarrow>
   files (fst (snd (CsvSaver_loop fp None cb chunks (t, A, False) (s, ms)))) =
     (files s)(fp \<mapsto> old @ concat (map (csv_lines False) (nonempty chunks)))"
proof (induction chunks arbitrary: t s ms old)
  case Nil
  then show ?case by (simp add: map_upd_triv)
next
  case (Cons c cs)
  show ?case
  proof (cases "df_empty c")
    case True
    then show ?thesis using Cons by simp
  next
    case False
    let ?s' = "\<lparr>files = (files s)(fp \<mapsto> old @ csv_lines False c),
                io = io s @ [ToCsv fp A False None c]\<rparr>"
    have step: "to_csv fp A False None c s = (Inr (), ?s')"
      using Cons.prems by (simp add: to_csv_plain previous_def)
    have "files (fst (snd (CsvSaver_loop fp None cb cs (t + df_len c, A, False)
                  (?s', call cb (df_len c) ms)))) =
          (files ?s')(fp \<mapsto> (old @ csv_lines False c) @ concat (map (csv_lines False) (nonempty cs)))"
      using Cons.prems by (intro Cons.IH) simp_all
    then show ?thesis using False step by simp
  qed
qed

lemma CsvSaver_loop_files_first:
  "files s fp = None \<Longrightarrow>
   files (fst (snd (CsvSaver_loop fp None cb chunks (t, W, True) (s, ms)))) fp =
     (case nonempty chunks of
        [] \<Rightarrow> None
      | d # ds \<Rightarrow>
          Some (BOM # HeaderLine (columns d) # concat (map (\<lambda>x. map DataLine (rows x)) (d # ds))))"
proof (induction chunks arbitrary: t s ms)
  case Nil
  then show ?case by simp
next
  case (Cons c cs)
  show ?case
  proof (cases "df_empty c")
    case True
    then show ?thesis using Cons by simp
  next
    case False
    let ?old = "BOM # csv_lines True c"
    let ?s' = "\<lparr>files = (files s)(fp \<mapsto> ?old), io = io s @ [ToCsv fp W True None c]\<rparr>"
    have step: "to_csv fp W True None c s = (Inr (), ?s')"
      by (simp add: to_csv_plain previous_def)
    have "files (fst (snd (CsvSaver_loop fp None cb cs (t + df_len c, A, False)
                  (?s', call cb (df_len c) ms)))) =
          (files ?s')(fp \<mapsto> ?old @ concat (map (csv_lines False) (nonempty cs)))"
      by (intro CsvSaver_loop_files_append) simp_all
    then show ?thesis using False step
      by (simp add: csv_lines_False csv_lines_def)
  qed
qed

subsection \<open>JSON\<close>

lemma to_json_accepts:
  "distinct (columns d) \<Longrightarrow> pandas_accepts k \<Longrightarrow>
   \<exists>s'. to_json p m k d s = (Inr (), s') \<and> io s' = io s @ [ToJson p m k d]"
proof -
  assume d: "distinct (columns d)" and "pandas_accepts k"
  then obtain codec where "infer_compression p k = Inr codec"
    using infer_compression_accepts by blast
  then show ?thesis using d by (simp add: to_json_def Let_def)
qed

lemma to_json_rejects:
  "\<not> (distinct (columns d) \<and> pandas_accepts k) \<Longrightarrow> \<exists>e s'. to_json p m k d s = (Inl e, s')"
proof (cases "distinct (columns d)")
  case False
  then show ?thesis by (simp add: to_json_def Let_def)
next
  case True
  assume "\<not> (distinct (columns d) \<and> pandas_accepts k)"
  with True have "\<not> pandas_accepts k" by simp
  then obtain e where "infer_compression p k = Inl e"
    using infer_compression_rejects by blast
  then show ?thesis using True by (simp add: to_json_def Let_def)
qed

lemma JsonSaver_loop_cb:
  "snd (snd (JsonSaver_loop fp k cb chunks (t, m) (s, ms))) =
     foldl (\<lambda>ms c. call cb (df_len c) ms) ms
       (takeWhile (\<lambda>d. distinct (columns d) \<and> pandas_accepts k) (nonempty chunks))"
proof (induction chunks arbitrary: t m s ms)
  case Nil
  then show ?case by simp
next
  case (Cons c cs)
  show ?case
  proof (cases "df_empty c")
    case True
    then show ?thesis using Cons by simp
  next
    case False
    show ?thesis
    proof (cases "distinct (columns c) \<and> pandas_accepts k")
      case True
      then obtain s' where "to_json fp m k c s = (Inr (), s')"
        using to_json_accepts by blast
      then show ?thesis using False True Cons by simp
    next
      case no: False
      then obtain e s' where "to_json fp m k c s = (Inl e, s')"
        using to_json_rejects by blast
      then show ?thesis using False no by auto
    qed
  qed
qed



subsection \<open>Parquet\<close>

lemma to_parquet_accepts:
  "distinct (columns d) \<Longrightarrow> parquet_codec_ok c \<Longrightarrow>
   to_parquet p c d s =
     (Inr (), \<lparr>files = (files s)(p \<mapsto> [ParquetTable d]), io = io s @ [ToParquet p c d]\<rparr>)"
  by (simp add: to_parquet_def Let_def)

lemma to_parquet_rejects:
  "\<not> (distinct (columns d) \<and> parquet_codec_ok c) \<Longrightarrow> \<exists>e s'. to_parquet p c d s = (Inl e, s')"
  by (auto simp add: to_parquet_def Let_def)

lemma ParquetSaver_loop_cb:
  "snd (snd (ParquetSaver_loop fp c cb chunks t (s, ms))) =
     foldl (\<lambda>ms d. call cb (df_len d) ms) ms
       (takeWhile (\<lambda>d. distinct (columns d) \<and> parquet_codec_ok c) (nonempty chunks))"
proof (induction chunks arbitrary: t s ms)
  case Nil
  then show ?case by simp
next
  case (Cons d ds)
  show ?case
  proof (cases "df_empty d")
    case True
    then show ?thesis using Cons by simp
  next
    case False
    show ?thesis
    proof (cases "distinct (columns d) \<and> parquet_codec_ok c")
      case True
      then show ?thesis using False Cons by (simp add: to_parquet_accepts)
    next
      case no: False
      then obtain e s' where "to_parquet fp c d s = (Inl e, s')"
        using to_parquet_rejects by blast
      then show ?thesis using False no by auto
    qed
  qed
qed

lemma ParquetSaver_loop_no_batches:
  "nonempty chunks = [] \<Longrightarrow> ParquetSaver_loop fp c cb chunks t (s, ms) = (Inr t, s, ms)"
  by (induction chunks) (simp_all add: nonempty_def split: if_splits)

lemma ParquetSaver_loop_accepted:
  "parquet_codec_ok c \<Longrightarrow> list_all (\<lambda>d. distinct (columns d)) (nonempty chunks) \<Longrightarrow>
   fst (ParquetSaver_loop fp c cb chunks t (s, ms)) =
     Inr (t + sum_list (map df_len (nonempty chunks)))
   \<and> io (fst (snd (ParquetSaver_loop fp c cb chunks t (s, ms)))) =
     io s @ map (ToParquet fp c) (nonempty chunks)
   \<and> files (fst (snd (ParquetSaver_loop fp c cb chunks t (s, ms)))) =
     (if nonempty chunks = [] then files s
      else (files s)(fp \<mapsto> [ParquetTable (last (nonempty chunks))]))"
proof (induction chunks arbitrary: t s ms)
  case Nil
  then show ?case by simp
next
  case (Cons d ds)
  show ?case
  proof (cases "df_empty d")
    case True
    then show ?thesis using Cons by simp
  next
    case False
    then have d: "distinct (columns d)" and rest: "list_all (\<lambda>d. distinct (columns d)) (nonempty ds)"
      using Cons.prems by simp_all
    let ?s' = "\<lparr>files = (files s)(fp \<mapsto> [ParquetTable d]), io = io s @ [ToParquet fp c d]\<rparr>"
    note step = to_parquet_accepts [OF d Cons.prems(1), of fp s]
    note ih = Cons.IH [OF Cons.prems(1) rest, of "t + df_len d" ?s' "call cb (df_len d) ms"]
    show ?thesis using False step ih by (auto simp add: add.assoc)
  qed
qed

lemma written_ToParquet [simp]: "written (map (ToParquet fp c) ds) = ds"
  by (induction ds) (simp_all add: written_Cons)

subsection \<open>Excel\<close>

lemma ExcelSaver_loop_total:
  "fst (ExcelSaver_loop cb chunks (r, t) (w, s, ms)) = t + sum_list (map df_len (nonempty chunks))"
  by (induction chunks arbitrary: r t w s ms) (simp_all add: nonempty_def to_excel_def Let_def)

lemma ExcelSaver_loop_cb:
  "snd (snd (snd (ExcelSaver_loop cb chunks (r, t) (w, s, ms)))) =
     foldl (\<lambda>ms c. call cb (df_len c) ms) ms (nonempty chunks)"
  by (induction chunks arbitrary: r t w s ms) (simp_all add: nonempty_def to_excel_def Let_def)


lemma ExcelSaver_loop_files:
  "files (fst (snd (snd (ExcelSaver_loop cb chunks (r, t) (w, s, ms))))) = files s"
  by (induction chunks arbitrary: r t w s ms) (simp_all add: to_excel_def Let_def)

lemma ExcelSaver_loop_wpath:
  "wpath (fst (snd (ExcelSaver_loop cb chunks (r, t) (w, s, ms)))) = wpath w"
  by (induction chunks arbitrary: r t w s ms) (simp_all add: to_excel_def Let_def)

lemma ExcelSaver_loop_book:
  "book (fst (snd (ExcelSaver_loop cb chunks (r, t) (w, s, ms)))) = [] \<longleftrightarrow>
     book w = [] \<and> nonempty chunks = []"
proof (induction chunks arbitrary: r t w s ms)
  case Nil
  then show ?case by simp
next
  case (Cons c cs)
  show ?case
  proof (cases "df_empty c")
    case True
    then show ?thesis using Cons by simp
  next
    case False
    then show ?thesis using Cons by (simp add: to_excel_def Let_def)
  qed
qed

subsection \<open>The strategies' save\<close>

lemma normalize_compression_truthy:
  "truthy (normalize_compression c) \<longleftrightarrow> normalize_compression c \<noteq> None"
  by (cases c) (auto simp add: normalize_compression_def truthy_def strip_def lower_def)

lemma excel_guard:
  "(truthy (normalize_compression c) \<and> normalize_compression c \<noteq> Some ''infer'') \<longleftrightarrow>
     \<not> excel_accepts c"
  by (auto simp add: normalize_compression_truthy excel_accepts_def)

lemma ExcelSaver_save_rejects:
  "\<not> excel_accepts c \<Longrightarrow> ExcelSaver_save dat fp c cb st = (Inl ExcelCompressionError, st)"
  using excel_guard [of c] by (simp add: ExcelSaver_save_def Let_def)

lemma ExcelSaver_save_accepts:
  assumes "excel_accepts c"
  shows "ExcelSaver_save dat fp c cb (s, ms) =
     (let s1 = s\<lparr>files := (files s)(fp \<mapsto> []), io := io s @ [OpenWriter fp]\<rparr>;
          res = ExcelSaver_loop cb (iter_chunks dat) (0, 0) (\<lparr>wpath = fp, book = []\<rparr>, s1, ms);
          cl = ExcelWriter_close (fst (snd res)) (fst (snd (snd res)))
      in (case fst cl of Inl e \<Rightarrow> Inl e | Inr u \<Rightarrow> Inr (fst res),
          snd cl, snd (snd (snd res))))"
proof -
  have g: "(truthy (normalize_compression c) \<and> normalize_compression c \<noteq> Some ''infer'') = False"
    using assms excel_guard [of c] by simp
  show ?thesis
    by (simp add: ExcelSaver_save_def ExcelWriter_open_def Let_def case_prod_beta g
          split: sum.splits)
qed

lemma ExcelSaver_save_cb:
  "excel_accepts c \<Longrightarrow>
   snd (snd (ExcelSaver_save dat fp c cb (s, ms))) =
     foldl (\<lambda>ms d. call cb (df_len d) ms) ms (nonempty (iter_chunks dat))"
  by (simp add: ExcelSaver_save_accepts Let_def ExcelSaver_loop_cb)


lemma ExcelSaver_save_total:
  "excel_accepts c \<Longrightarrow> nonempty (iter_chunks dat) \<noteq> [] \<Longrightarrow>
   fst (ExcelSaver_save dat fp c cb (s, ms)) = Inr (sum_list (map df_len (nonempty (iter_chunks dat))))"
  by (simp add: ExcelSaver_save_accepts Let_def ExcelWriter_close_def ExcelSaver_loop_book
        ExcelSaver_loop_total)

lemma ExcelSaver_save_no_sheet:
  "excel_accepts c \<Longrightarrow> nonempty (iter_chunks dat) = [] \<Longrightarrow>
   fst (ExcelSaver_save dat fp c cb (s, ms)) = Inl NoVisibleSheetError"
  by (simp add: ExcelSaver_save_accepts Let_def ExcelWriter_close_def ExcelSaver_loop_book)

lemma accepts_CsvSaver: "accepts CsvSaver c = (\<lambda>d. pandas_accepts (csv_codec c))"
  by (rule ext) simp

lemma accepts_ExcelSaver: "accepts ExcelSaver c = (\<lambda>d. excel_accepts c)"
  by (rule ext) simp

lemma accepts_JsonSaver:
  "accepts JsonSaver c = (\<lambda>d. distinct (columns d) \<and> pandas_accepts (normalize_compression c))"
  by (rule ext) simp

lemma accepts_ParquetSaver:
  "accepts ParquetSaver c = (\<lambda>d. distinct (columns d) \<and> parquet_codec_ok c)"
  by (rule ext) simp

lemma CsvSaver_save_eq:
  "CsvSaver_save dat fp c cb st =
     CsvSaver_loop fp (csv_codec c) cb (iter_chunks dat) (0, W, True) (unlink fp (fst st), snd st)"
  by (simp add: CsvSaver_save_def csv_codec_def Let_def)

lemma JsonSaver_save_eq:
  "JsonSaver_save dat fp c cb st =
     JsonSaver_loop fp (normalize_compression c) cb (iter_chunks dat) (0, W) st"
  by (simp add: JsonSaver_save_def Let_def)



lemma accepts_ParquetSaver_all:
  "xs \<noteq> [] \<Longrightarrow> list_all (accepts ParquetSaver c) xs \<Longrightarrow>
   parquet_codec_ok c \<and> list_all (\<lambda>d. distinct (columns d)) xs"
  by (cases xs) (auto simp add: list_all_iff)

lemma takeWhile_const_True: "takeWhile (\<lambda>d. True) xs = xs"
  by (induction xs) simp_all

lemma takeWhile_const_False: "takeWhile (\<lambda>d. False) xs = []"
  by (cases xs) simp_all

lemma save_cb:
  "snd (snd (save sv dat fp c cb (s, ms))) =
     foldl (\<lambda>ms d. call cb (df_len d) ms) ms (reported sv c (iter_chunks dat))"
proof (cases sv)
  case CsvSaver
  then show ?thesis
    by (simp add: save_def reported_def accepts_CsvSaver CsvSaver_save_eq CsvSaver_loop_cb)
next
  case ExcelSaver
  then show ?thesis
    by (cases "excel_accepts c")
       (simp_all add: save_def reported_def accepts_ExcelSaver ExcelSaver_save_cb
          ExcelSaver_save_rejects takeWhile_const_True takeWhile_const_False)
next
  case JsonSaver
  then show ?thesis
    by (simp add: save_def reported_def accepts_JsonSaver JsonSaver_save_eq JsonSaver_loop_cb)
next
  case ParquetSaver
  then show ?thesis
    by (simp add: save_def reported_def accepts_ParquetSaver ParquetSaver_save_def
          ParquetSaver_loop_cb)
qed




section \<open>Facts about notification and error handling\<close>

lemma EmailObserver_update_updates:
  "updates (snd (EmailObserver_update c msg ctx s w)) = updates w"
  by (simp add: EmailObserver_update_def EmailObserver_send_def attach_file_def logger_def Let_def
        split: option.splits sum.splits prod.splits)

lemma TelegramObserver_update_updates:
  "updates (snd (TelegramObserver_update c msg w)) = updates w"
  by (simp add: TelegramObserver_update_def TelegramObserver_send_def logger_def)

lemma update_updates:
  "updates (snd (update ob msg ctx s w)) = updates w @ [(ob, msg)]"
  by (cases ob)
     (simp_all add: update_def Let_def case_prod_beta EmailObserver_update_updates
        TelegramObserver_update_updates)

lemma update_channel:
  "ob \<noteq> Observer \<Longrightarrow> \<exists>b. fst (update ob msg ctx s w) = Inr b"
  by (cases ob) (simp_all add: update_def Let_def case_prod_beta)
lemma notify_channels:
  "Observer \<notin> set obs \<Longrightarrow> fst (notify obs msg ctx s w) = Inr ()"
proof (induction obs arbitrary: w)
  case Nil
  then show ?case by simp
next
  case (Cons ob obs)
  obtain r w' where u: "update ob msg ctx s w = (r, w')"
    by (cases "update ob msg ctx s w") simp
  from Cons.prems have "ob \<noteq> Observer" by auto
  then obtain b where "r = Inr b"
    using update_channel [of ob msg ctx s w] u by auto
  then show ?case using Cons u by simp
qed

lemma notify_updates:
  "Observer \<notin> set obs \<Longrightarrow>
   updates (snd (notify obs msg ctx s w)) = updates w @ map (\<lambda>ob. (ob, msg)) obs"
proof (induction obs arbitrary: w)
  case Nil
  then show ?case by simp
next
  case (Cons ob obs)
  obtain r w' where u: "update ob msg ctx s w = (r, w')"
    by (cases "update ob msg ctx s w") simp
  from Cons.prems have "ob \<noteq> Observer" by auto
  then obtain b where r: "r = Inr b"
    using update_channel [of ob msg ctx s w] u by auto
  have "updates w' = updates w @ [(ob, msg)]"
    using update_updates [of ob msg ctx s w] u by simp
  then show ?case using Cons u r by simp
qed

lemma notify_telegram:
  "fst (notify (attach (TelegramObserver_init w0) []) msg ctx s w) = Inr ()"
  by (rule notify_channels) (simp add: attach_def TelegramObserver_init_def)

lemma LoggingDecorator_fst: "fst (LoggingDecorator lm name f st) = fst (f st)"
  by (cases "f st") (simp add: LoggingDecorator_def Let_def split: sum.splits)

lemma LoggingDecorator_self: "self (snd (LoggingDecorator lm name f st)) = self (snd (f st))"
  by (cases "f st") (simp add: LoggingDecorator_def Let_def split: sum.splits)

lemma LoggingDecorator_fs: "fs (snd (LoggingDecorator lm name f st)) = fs (snd (f st))"
  by (cases "f st") (simp add: LoggingDecorator_def Let_def split: sum.splits)

lemma NotificationDecorator_Inr:
  "f st = (Inr v, st') \<Longrightarrow> NotificationDecorator nf name f st = (Inr v, st')"
  by (simp add: NotificationDecorator_def)

lemma NotificationDecorator_Inl:
  assumes "f st = (Inl e, st')"
  shows "\<exists>w'. NotificationDecorator nf name f st = (Inl e, st'\<lparr>ext := w'\<rparr>)"
proof (cases nf)
  case False
  have "NotificationDecorator nf name f st = (Inl e, st'\<lparr>ext := ext st'\<rparr>)"
    using assms False by (simp add: NotificationDecorator_def)
  then show ?thesis by (rule exI)
next
  case True
  let ?n = "notify (attach (TelegramObserver_init (ext st')) [])
              (''Error in '' @ name @ '': '' @ error_text e)
              \<lparr>subject = None, body = None, attachment_path = None\<rparr> (fs st') (ext st')"
  obtain r w' where n: "?n = (r, w')" by (cases ?n) simp
  have "fst ?n = Inr ()" by (rule notify_telegram)
  with n have r: "r = Inr ()" by simp
  have "NotificationDecorator nf name f st = (Inl e, st'\<lparr>ext := w'\<rparr>)"
    using assms True n r by (simp add: NotificationDecorator_def)
  then show ?thesis by (rule exI)
qed

lemma error_handler_Inr:
  "f st = (Inr v, st') \<Longrightarrow> error_handler lm nf 0 name f st = (Inr v, st')"
  by (simp add: error_handler_def NotificationDecorator_def LoggingDecorator_def)

lemma error_handler_Inl:
  assumes "f st = (Inl e, st')"
  shows "\<exists>w'. error_handler lm nf 0 name f st = (Inl e, st'\<lparr>ext := w'\<rparr>)"
proof -
  let ?g = "LoggingDecorator lm name (RetryDecorator 0 f)"
  define w1 where
    "w1 = logger (LogError (case lm of None \<Rightarrow> ''Error in '' @ name
                             | Some m \<Rightarrow> if m = [] then ''Error in '' @ name else m) e) (ext st')"
  have g: "?g st = (Inl e, st'\<lparr>ext := w1\<rparr>)"
    using assms by (simp add: LoggingDecorator_def Let_def w1_def)
  obtain w' where "NotificationDecorator nf name ?g st = (Inl e, st'\<lparr>ext := w1\<rparr>\<lparr>ext := w'\<rparr>)"
    using NotificationDecorator_Inl [of ?g st e "st'\<lparr>ext := w1\<rparr>" nf name] g by blast
  then have "error_handler lm nf 0 name f st = (Inl e, st'\<lparr>ext := w'\<rparr>)"
    by (simp add: error_handler_def)
  then show ?thesis by (rule exI)
qed

lemma error_handler_fst: "fst (error_handler lm nf 0 name f st) = fst (f st)"
proof (cases "f st")
  case (Pair r st')
  show ?thesis
  proof (cases r)
    case (Inl e)
    then show ?thesis using Pair error_handler_Inl [of f st e st' lm nf name] by auto
  next
    case (Inr v)
    then show ?thesis using Pair error_handler_Inr [of f st v st' lm nf name] by simp
  qed
qed

lemma error_handler_self: "self (snd (error_handler lm nf 0 name f st)) = self (snd (f st))"
proof (cases "f st")
  case (Pair r st')
  show ?thesis
  proof (cases r)
    case (Inl e)
    then show ?thesis using Pair error_handler_Inl [of f st e st' lm nf name] by auto
  next
    case (Inr v)
    then show ?thesis using Pair error_handler_Inr [of f st v st' lm nf name] by simp
  qed
qed

lemma error_handler_fs: "fs (snd (error_handler lm nf 0 name f st)) = fs (snd (f st))"
proof (cases "f st")
  case (Pair r st')
  show ?thesis
  proof (cases r)
    case (Inl e)
    then show ?thesis using Pair error_handler_Inl [of f st e st' lm nf name] by auto
  next
    case (Inr v)
    then show ?thesis using Pair error_handler_Inr [of f st v st' lm nf name] by simp
  qed
qed

section \<open>Facts about the orchestrator\<close>

lemma foldl_update_metrics:
  "foldl (\<lambda>m d. call (Some update_metrics) (df_len d) m) (e, w) ds =
     (e\<lparr>metrics := (metrics e)
          \<lparr>rows_processed := rows_processed (metrics e) + sum_list (map df_len ds),
           memory_usage := memory_usage (metrics e) @ replicate (length ds) (memory w)\<rparr>\<rparr>,
      w)"
proof (induction ds arbitrary: e)
  case Nil
  show ?case by simp
next
  case (Cons d ds)
  let ?e1 = "e\<lparr>metrics := (metrics e)
              \<lparr>rows_processed := rows_processed (metrics e) + df_len d,
               memory_usage := memory_usage (metrics e) @ [memory w]\<rparr>\<rparr>"
  have step: "call (Some update_metrics) (df_len d) (e, w) = (?e1, w)"
    by (simp add: call_def update_metrics_def)
  show ?case
    unfolding foldl_Cons step Cons [of ?e1]
    by (simp add: add.assoc replicate_app_Cons_same)
qed

lemma load_body_callback_irrelevant: "load_body dat cb st = load_body dat cb' st"
  by (simp add: load_body_def)

lemma load_body_self:
  assumes "saver_strategy_map (export_format (self st)) = Some sv"
  shows "self (snd (load_body dat cb st)) =
     fst (foldl (\<lambda>m d. call (Some update_metrics) (df_len d) m)
            ((self st)\<lparr>filename := Some (generate_filename (self st) (ext st))\<rparr>, ext st)
            (reported sv (compression (self st)) (iter_chunks dat)))"
proof -
  let ?fn = "generate_filename (self st) (ext st)"
  let ?e = "(self st)\<lparr>filename := Some ?fn\<rparr>"
  let ?sv = "save sv dat ?fn (compression (self st)) (Some update_metrics) (fs st, ?e, ext st)"
  have cb: "snd (snd ?sv) =
      foldl (\<lambda>m d. call (Some update_metrics) (df_len d) m) (?e, ext st)
        (reported sv (compression (self st)) (iter_chunks dat))"
    by (rule save_cb)
  obtain r s' e' w' where sv: "?sv = (r, s', e', w')"
    by (cases ?sv) auto
  have "self (snd (load_body dat cb st)) = e'"
    using assms(1) sv by (simp add: load_body_def Let_def split: sum.splits)
  moreover have "e' = fst (snd (snd ?sv))" using sv by simp
  ultimately show ?thesis using cb by simp
qed


lemma load_self: "self (snd (load dat cb st)) = self (snd (load_body dat cb st))"
  by (simp add: load_def error_handler_self)



lemma send_report_body_fs: "fs (snd (send_report_body st)) = fs st"
  by (simp add: send_report_body_def Let_def split: option.splits sum.splits prod.splits)

lemma send_report_fs: "fs (snd (send_report st)) = fs st"
  by (simp add: send_report_def error_handler_fs send_report_body_fs)





section \<open>The claims\<close>

text \<open>
  C1. A run whose extraction yields no batch must fail with the "no data to save" error
  and leave no file that counts as an output. With the spreadsheet format the writer
  session creates the destination file before any batch is read, and closing the session
  without a sheet fails in the library: \<^verbatim>\<open>load\<close> raises that failure instead of "no data to
  save", the file stays at the run's destination path, and \<^verbatim>\<open>_send_report\<close>, finding it,
  reports the export as finished. The same run with the delimited-text format raises "no
  data to save", leaves no file and sends no such report.
\<close>

theorem run_xlsx_without_rows_leaves_file:
  "fst (run (\<lambda>x. (Inr (Chunks []), x)) (\<lambda>d x. (Inr d, x)) (telegram_job ''xlsx'')) =
     Inl NoVisibleSheetError
   \<and> filename (self (snd (run (\<lambda>x. (Inr (Chunks []), x)) (\<lambda>d x. (Inr d, x))
                           (telegram_job ''xlsx'')))) =
     Some ''exports/export_03.11.2026_10-00-00.xlsx''
   \<and> files (fs (snd (run (\<lambda>x. (Inr (Chunks []), x)) (\<lambda>d x. (Inr d, x))
                           (telegram_job ''xlsx''))))
       ''exports/export_03.11.2026_10-00-00.xlsx'' = Some []
   \<and> map snd (updates (ext (snd (run (\<lambda>x. (Inr (Chunks []), x)) (\<lambda>d x. (Inr d, x))
                           (telegram_job ''xlsx''))))) =
     [''Error in load: At least one sheet must be visible'',
      ''ETL finished. File: export_03.11.2026_10-00-00.xlsx'',
      ''Error in run: At least one sheet must be visible'']
   \<and> fst (run (\<lambda>x. (Inr (Chunks []), x)) (\<lambda>d x. (Inr d, x)) (telegram_job ''csv'')) =
     Inl NoDataError
   \<and> files (fs (snd (run (\<lambda>x. (Inr (Chunks []), x)) (\<lambda>d x. (Inr d, x))
                           (telegram_job ''csv''))))
       ''exports/export_03.11.2026_10-00-00.csv'' = None
   \<and> map snd (updates (ext (snd (run (\<lambda>x. (Inr (Chunks []), x)) (\<lambda>d x. (Inr d, x))
                           (telegram_job ''csv''))))) =
     [''Error in load: no data to save'', ''Error in run: no data to save'']"
  by code_simp




text \<open>
  C3. The spreadsheet strategy's save raises the configuration error exactly when the
  compression value, once normalized, is neither no compression nor \<^verbatim>\<open>'infer'\<close>; it then
  leaves the file system and the callback's state as they were, so no file is created or
  written. With a value that normalizes to no compression, or with \<^verbatim>\<open>'infer'\<close>, it goes
  on: the destination file is created, and the rows are counted and returned whenever
  some batch is not empty.
\<close>

theorem ExcelSaver_compression_guard:
  "(fst (ExcelSaver_save dat fp c cb (s, ms)) = Inl ExcelCompressionError \<longleftrightarrow> \<not> excel_accepts c)
   \<and> (\<not> excel_accepts c \<longrightarrow>
        ExcelSaver_save dat fp c cb (s, ms) = (Inl ExcelCompressionError, s, ms))
   \<and> (excel_accepts c \<longrightarrow>
        files (fst (snd (ExcelSaver_save dat fp c cb (s, ms)))) fp \<noteq> None
        \<and> (nonempty (iter_chunks dat) \<noteq> [] \<longrightarrow>
             fst (ExcelSaver_save dat fp c cb (s, ms)) =
               Inr (sum_list (map df_len (nonempty (iter_chunks dat))))))"
proof (cases "excel_accepts c")
  case False
  then show ?thesis by (simp add: ExcelSaver_save_rejects)
next
  case True
  have created: "files (fst (snd (ExcelSaver_save dat fp c cb (s, ms)))) fp \<noteq> None"
    by (simp add: ExcelSaver_save_accepts [OF True] Let_def ExcelWriter_close_def
          ExcelSaver_loop_files ExcelSaver_loop_wpath)
  have noconf: "fst (ExcelSaver_save dat fp c cb (s, ms)) \<noteq> Inl ExcelCompressionError"
    by (cases "nonempty (iter_chunks dat) = []")
       (simp_all add: ExcelSaver_save_no_sheet [OF True] ExcelSaver_save_total [OF True])
  show ?thesis using True created noconf by (simp add: ExcelSaver_save_total)
qed

theorem ExcelSaver_compression_guard_witness:
  "ExcelSaver_save (Chunks [batch_a]) ''out.xlsx'' (Some ''gzip'') None
       (\<lparr>files = Map.empty, io = []\<rparr>, ()) =
     (Inl ExcelCompressionError, \<lparr>files = Map.empty, io = []\<rparr>, ())
   \<and> fst (ExcelSaver_save (Chunks [batch_a]) ''out.xlsx'' (Some '' NONE '') None
            (\<lparr>files = Map.empty, io = []\<rparr>, ())) = Inr 1
   \<and> fst (ExcelSaver_save (Chunks [batch_a]) ''out.xlsx'' (Some ''infer'') None
            (\<lparr>files = Map.empty, io = []\<rparr>, ())) = Inr 1"
proof -
  have rej: "\<not> excel_accepts (Some ''gzip'')"
    by code_simp
  have acc1: "excel_accepts (Some '' NONE '')"
    by code_simp
  have acc2: "excel_accepts (Some ''infer'')"
    by code_simp
  have ne: "nonempty (iter_chunks (Chunks [batch_a])) = [batch_a]"
    by (simp add: nonempty_def df_empty_def batch_a_def)
  have len: "df_len batch_a = 1" by (simp add: df_len_def batch_a_def)
  show ?thesis
    using ExcelSaver_compression_guard
            [of "Chunks [batch_a]" "''out.xlsx''" "Some ''gzip''" None
                "\<lparr>files = Map.empty, io = []\<rparr>" "()"]
          ExcelSaver_compression_guard
            [of "Chunks [batch_a]" "''out.xlsx''" "Some '' NONE ''" None
                "\<lparr>files = Map.empty, io = []\<rparr>" "()"]
          ExcelSaver_compression_guard
            [of "Chunks [batch_a]" "''out.xlsx''" "Some ''infer''" None
                "\<lparr>files = Map.empty, io = []\<rparr>" "()"]
          rej acc1 acc2 ne len
    by simp
qed

text \<open>
  C4. A failure inside the reporting step must not replace the outcome of the load stage,
  and the metrics must be logged on every exit of \<^verbatim>\<open>run\<close>. Here the export of one row
  succeeds (the file is written, "data saved" is logged), the e-mail handler cannot be
  constructed because \<^verbatim>\<open>EMAIL_SMTP_PORT\<close> is not a number, \<^verbatim>\<open>_send_report\<close> raises inside
  the \<^verbatim>\<open>finally\<close> block, \<^verbatim>\<open>run\<close> fails with that error, and no metrics line is logged.
\<close>

theorem run_report_failure_replaces_outcome:
  "fst (run (\<lambda>x. (Inr (Chunks [batch_a]), x)) (\<lambda>d x. (Inr d, x)) bad_port_job) =
     Inl (IntParseError ''smtp'')
   \<and> files (fs (snd (run (\<lambda>x. (Inr (Chunks [batch_a]), x)) (\<lambda>d x. (Inr d, x)) bad_port_job)))
       ''exports/export_03.11.2026_10-00-00.csv'' =
     Some [BOM, HeaderLine [''id'', ''name''], DataLine [''1'', ''a'']]
   \<and> log (ext (snd (run (\<lambda>x. (Inr (Chunks [batch_a]), x)) (\<lambda>d x. (Inr d, x)) bad_port_job))) =
     [LogInfo ''run parameters'', LogInfo ''data saved'',
      LogError ''report sending error'' (IntParseError ''smtp''),
      LogWarning ''telegram without full configuration'',
      LogError ''ETL run error'' (IntParseError ''smtp''),
      LogWarning ''telegram without full configuration'']"
  by code_simp

text \<open>
  C5. For every list of attached channel handlers (e-mail and Telegram handlers; the
  interface class itself is no channel) and every call of \<^verbatim>\<open>notify\<close>, the \<^verbatim>\<open>update\<close> of
  each handler is called, in attachment order, and \<^verbatim>\<open>notify\<close> returns without raising:
  whatever goes wrong inside a handler is caught there and does not keep the later
  handlers from being called. A channel whose configuration is incomplete returns
  \<^verbatim>\<open>False\<close>.
\<close>

theorem notify_calls_every_channel:
  "Observer \<notin> set obs \<Longrightarrow>
     fst (notify obs msg ctx s w) = Inr ()
     \<and> updates (snd (notify obs msg ctx s w)) = updates w @ map (\<lambda>ob. (ob, msg)) obs
     \<and> (\<forall>c. \<not> email_config_complete c \<longrightarrow> fst (update (EmailObserver c) msg ctx s w) = Inr False)
     \<and> (\<forall>t. \<not> tg_config_complete t \<longrightarrow> fst (update (TelegramObserver t) msg ctx s w) = Inr False)"
  by (simp add: notify_channels notify_updates update_def Let_def EmailObserver_update_def
        TelegramObserver_update_def)

theorem notify_calls_every_channel_witness:
  "fst (notify [EmailObserver \<lparr>smtp_server = None, smtp_port = 465, user = None, password = None,
                               sender = None, recipient = None\<rparr>,
                TelegramObserver \<lparr>token = Some ''t'', chat_id = Some ''42''\<rparr>]
          ''done'' \<lparr>subject = None, body = None, attachment_path = None\<rparr>
          \<lparr>files = Map.empty, io = []\<rparr> sample_world) = Inr ()
   \<and> updates (snd (notify [EmailObserver \<lparr>smtp_server = None, smtp_port = 465, user = None,
                                 password = None, sender = None, recipient = None\<rparr>,
                TelegramObserver \<lparr>token = Some ''t'', chat_id = Some ''42''\<rparr>]
          ''done'' \<lparr>subject = None, body = None, attachment_path = None\<rparr>
          \<lparr>files = Map.empty, io = []\<rparr> sample_world)) =
     [(EmailObserver \<lparr>smtp_server = None, smtp_port = 465, user = None, password = None,
                       sender = None, recipient = None\<rparr>, ''done''),
      (TelegramObserver \<lparr>token = Some ''t'', chat_id = Some ''42''\<rparr>, ''done'')]
   \<and> fst (update (EmailObserver \<lparr>smtp_server = None, smtp_port = 465, user = None,
                                   password = None, sender = None, recipient = None\<rparr>)
            ''done'' \<lparr>subject = None, body = None, attachment_path = None\<rparr>
            \<lparr>files = Map.empty, io = []\<rparr> sample_world) = Inr False"
  using notify_calls_every_channel
     [of "[EmailObserver \<lparr>smtp_server = None, smtp_port = 465, user = None, password = None,
                           sender = None, recipient = None\<rparr>,
           TelegramObserver \<lparr>token = Some ''t'', chat_id = Some ''42''\<rparr>]"
         "''done''" "\<lparr>subject = None, body = None, attachment_path = None\<rparr>"
         "\<lparr>files = Map.empty, io = []\<rparr>" sample_world]
  by (simp add: sample_world_def email_config_complete_def truthy_def)

text \<open>
  C6. Running twice against the same destination path must leave only the second run's
  data. The line-delimited strategy replaces the file with its first write; when the
  second run has no batch that is not empty it writes nothing and the file of the first
  run stays as it was. The delimited-text strategy, which removes the file first, leaves
  none.
\<close>

theorem JsonSaver_keeps_previous_file:
  "files (fst (snd (JsonSaver_save (Chunks [batch_none]) ''out.json'' None None
       (fst (snd (JsonSaver_save (Chunks [batch_a]) ''out.json'' None None
                    (\<lparr>files = Map.empty, io = []\<rparr>, ()))), ())))) ''out.json'' =
     Some [JsonLine [(''id'', ''1''), (''name'', ''a'')]]
   \<and> files (fst (snd (CsvSaver_save (Chunks [batch_none]) ''out.csv'' None None
       (fst (snd (CsvSaver_save (Chunks [batch_a]) ''out.csv'' None None
                    (\<lparr>files = Map.empty, io = []\<rparr>, ()))), ())))) ''out.csv'' = None"
  by code_simp

text \<open>
  C7. Given a compression value \<^verbatim>\<open>to_csv\<close> does not raise on, the tar codec apart, the
  delimited-text strategy writes the column header exactly once, together with the first
  batch that is not empty, and appends every later batch that is not empty in order
  without a header: only the first write is made with the header switched on and in mode
  \<^verbatim>\<open>'w'\<close>, all later ones without header in mode \<^verbatim>\<open>'a'\<close>. With no compression (or
  \<^verbatim>\<open>'infer'\<close>, which the strategy turns into none) the destination, whatever it held
  before, then holds the byte order mark, the header of the first such batch and the data
  rows of all of them in input order, and there is no file when there is no such batch.
\<close>

theorem CsvSaver_header_once:
  "pandas_accepts (csv_codec c) \<Longrightarrow> \<not> writes_tar CsvSaver fp c \<Longrightarrow>
     io (fst (snd (CsvSaver_save dat fp c cb (s, ms)))) =
       io s @ Unlink fp #
         (case nonempty (iter_chunks dat) of
            [] \<Rightarrow> []
          | d # ds \<Rightarrow> ToCsv fp W True (csv_codec c) d # map (ToCsv fp A False (csv_codec c)) ds)
     \<and> (csv_codec c = None \<longrightarrow>
          files (fst (snd (CsvSaver_save dat fp c cb (s, ms)))) fp =
            (case nonempty (iter_chunks dat) of
               [] \<Rightarrow> None
             | d # ds \<Rightarrow>
                 Some (BOM # HeaderLine (columns d) #
                       concat (map (\<lambda>x. map DataLine (rows x)) (d # ds)))))"
proof -
  assume acc: "pandas_accepts (csv_codec c)"
  have i: "io (fst (snd (CsvSaver_save dat fp c cb (s, ms)))) =
       io s @ Unlink fp #
         (case nonempty (iter_chunks dat) of
            [] \<Rightarrow> []
          | d # ds \<Rightarrow> ToCsv fp W True (csv_codec c) d # map (ToCsv fp A False (csv_codec c)) ds)"
    by (simp add: CsvSaver_save_eq CsvSaver_loop_io [OF acc] unlink_def)
  have f: "csv_codec c = None \<Longrightarrow>
          files (fst (snd (CsvSaver_save dat fp c cb (s, ms)))) fp =
            (case nonempty (iter_chunks dat) of
               [] \<Rightarrow> None
             | d # ds \<Rightarrow>
                 Some (BOM # HeaderLine (columns d) #
                       concat (map (\<lambda>x. map DataLine (rows x)) (d # ds))))"
  proof -
    assume k: "csv_codec c = None"
    have "files (unlink fp s) fp = None" by (simp add: unlink_def)
    then show ?thesis
      unfolding CsvSaver_save_eq k fst_conv snd_conv by (rule CsvSaver_loop_files_first)
  qed
  from i f show ?thesis by blast
qed

theorem CsvSaver_header_once_witness:
  "io (fst (snd (CsvSaver_save (Chunks [batch_a, batch_b]) ''out.csv'' None None
                  (\<lparr>files = Map.empty, io = []\<rparr>, ())))) =
     [Unlink ''out.csv'', ToCsv ''out.csv'' W True None batch_a,
      ToCsv ''out.csv'' A False None batch_b]
   \<and> files (fst (snd (CsvSaver_save (Chunks [batch_a, batch_b]) ''out.csv'' None None
                  (\<lparr>files = Map.empty, io = []\<rparr>, ())))) ''out.csv'' =
     Some [BOM, HeaderLine [''id'', ''name''], DataLine [''1'', ''a''], DataLine [''2'', ''b'']]"
proof -
  have k: "csv_codec None = None" by (simp add: csv_codec_def normalize_compression_def)
  have acc: "pandas_accepts (csv_codec None)" by (simp add: k pandas_accepts_def)
  have nt: "\<not> writes_tar CsvSaver ''out.csv'' None" by (simp add: k infer_compression_def)
  have ne: "nonempty [batch_a, batch_b] = [batch_a, batch_b]"
    by (simp add: nonempty_def df_empty_def batch_a_def batch_b_def)
  have r: "rows batch_a = [[''1'', ''a'']]" "rows batch_b = [[''2'', ''b'']]"
          "columns batch_a = [''id'', ''name'']"
    by (simp_all add: batch_a_def batch_b_def)
  show ?thesis
    using CsvSaver_header_once
            [OF acc nt, of "Chunks [batch_a, batch_b]" None "\<lparr>files = Map.empty, io = []\<rparr>" "()"]
    by (simp add: k ne r)
qed

text \<open>
  C8. Each batch must be inserted at the next free row of the sheet. The strategy advances
  \<^verbatim>\<open>startrow\<close> by the number of data rows only, while each write also puts a header row:
  for two batches of one row the second write starts at sheet row 1, the row holding the
  first batch's data, and its header cells replace them.
\<close>

theorem ExcelSaver_second_header_overwrites:
  "io (fst (snd (ExcelSaver_save (Chunks [batch_a, batch_b]) ''out.xlsx'' None None
                  (\<lparr>files = Map.empty, io = []\<rparr>, ())))) =
     [OpenWriter ''out.xlsx'', ToExcel ''out.xlsx'' ''Data'' 0 batch_a,
      ToExcel ''out.xlsx'' ''Data'' 1 batch_b, CloseWriter ''out.xlsx'']
   \<and> map_of (excel_cells 0 batch_a) (1, 0) = Some ''1''
   \<and> map_of (excel_cells 1 batch_b) (1, 0) = Some ''id''
   \<and> files (fst (snd (ExcelSaver_save (Chunks [batch_a, batch_b]) ''out.xlsx'' None None
                  (\<lparr>files = Map.empty, io = []\<rparr>, ())))) ''out.xlsx'' =
     Some [Workbook [(''Data'',
        [((0, 0), ''id''), ((0, 1), ''name''), ((1, 0), ''id''), ((1, 1), ''name''),
         ((2, 0), ''2''), ((2, 1), ''b'')])]]"
  by code_simp

text \<open>
  C9. For every batch sequence and compression value that \<^verbatim>\<open>to_parquet\<close> lets through (a
  codec name its writer knows, column names that are unique), the columnar strategy calls
  the single-shot write \<^verbatim>\<open>to_parquet\<close> exactly once per batch that is not empty, every
  time on the same destination path, and returns the sum of the row counts of all those
  batches, while the file holds what the last call wrote: the last such batch alone.
\<close>

theorem ParquetSaver_one_write_per_batch:
  "list_all (accepts ParquetSaver c) (nonempty (iter_chunks dat)) \<Longrightarrow>
   io (fst (snd (ParquetSaver_save dat fp c cb (s, ms)))) =
     io s @ map (ToParquet fp c) (nonempty (iter_chunks dat))
   \<and> fst (ParquetSaver_save dat fp c cb (s, ms)) =
     Inr (sum_list (map df_len (nonempty (iter_chunks dat))))
   \<and> files (fst (snd (ParquetSaver_save dat fp c cb (s, ms)))) fp =
     (if nonempty (iter_chunks dat) = [] then files s fp
      else Some [ParquetTable (last (nonempty (iter_chunks dat)))])"
proof (cases "nonempty (iter_chunks dat) = []")
  case True
  then show ?thesis
    by (simp add: ParquetSaver_save_def ParquetSaver_loop_no_batches)
next
  case False
  assume "list_all (accepts ParquetSaver c) (nonempty (iter_chunks dat))"
  with False have ok: "parquet_codec_ok c"
    and d: "list_all (\<lambda>d. distinct (columns d)) (nonempty (iter_chunks dat))"
    using accepts_ParquetSaver_all [of "nonempty (iter_chunks dat)" c] by simp_all
  show ?thesis
    using False ParquetSaver_loop_accepted [OF ok d, of fp cb 0 s ms]
    by (simp add: ParquetSaver_save_def)
qed

theorem ParquetSaver_one_write_per_batch_witness:
  "io (fst (snd (ParquetSaver_save (Chunks [batch_a, batch_none, batch_b]) ''out.parquet''
                  (Some ''gzip'') None (\<lparr>files = Map.empty, io = []\<rparr>, ())))) =
     [ToParquet ''out.parquet'' (Some ''gzip'') batch_a,
      ToParquet ''out.parquet'' (Some ''gzip'') batch_b]
   \<and> fst (ParquetSaver_save (Chunks [batch_a, batch_none, batch_b]) ''out.parquet''
            (Some ''gzip'') None (\<lparr>files = Map.empty, io = []\<rparr>, ())) = Inr 2
   \<and> files (fst (snd (ParquetSaver_save (Chunks [batch_a, batch_none, batch_b]) ''out.parquet''
                  (Some ''gzip'') None (\<lparr>files = Map.empty, io = []\<rparr>, ())))) ''out.parquet'' =
     Some [ParquetTable batch_b]"
proof -
  have acc: "list_all (accepts ParquetSaver (Some ''gzip''))
               (nonempty (iter_chunks (Chunks [batch_a, batch_none, batch_b])))"
    by code_simp
  have ne: "nonempty [batch_a, batch_none, batch_b] = [batch_a, batch_b]"
    by (simp add: nonempty_def df_empty_def batch_a_def batch_b_def batch_none_def)
  have len: "df_len batch_a = 1" "df_len batch_b = 1"
    by (simp_all add: df_len_def batch_a_def batch_b_def)
  show ?thesis
    using ParquetSaver_one_write_per_batch
            [OF acc, of "''out.parquet''" None "\<lparr>files = Map.empty, io = []\<rparr>" "()"]
    by (simp add: ne len)
qed

text \<open>
  C10. Whatever the caller of \<^verbatim>\<open>load\<close> passes as \<^verbatim>\<open>metrics_callback\<close>, the outcome and the
  state after \<^verbatim>\<open>load\<close> are the same as with no callback: the caller's callback is never
  called. The callback the strategy gets is the orchestrator's own \<^verbatim>\<open>_update_metrics\<close>:
  whenever the format resolves to a strategy, \<^verbatim>\<open>load\<close> adds the rows of the batches the
  strategy reports to \<^verbatim>\<open>rows_processed\<close> and one memory sample per such batch to
  \<^verbatim>\<open>memory_usage\<close>.
\<close>

theorem load_ignores_caller_callback:
  "load dat cb st = load dat None st
   \<and> (saver_strategy_map (export_format (self st)) = Some sv \<longrightarrow>
        metrics (self (snd (load dat cb st))) =
          (metrics (self st))
            \<lparr>rows_processed :=
               rows_processed (metrics (self st)) +
               sum_list (map df_len (reported sv (compression (self st)) (iter_chunks dat))),
             memory_usage :=
               memory_usage (metrics (self st)) @
               replicate (length (reported sv (compression (self st)) (iter_chunks dat)))
                 (memory (ext st))\<rparr>)"
proof -
  have "load_body dat cb = load_body dat None"
    by (rule ext) (rule load_body_callback_irrelevant)
  then have eq: "load dat cb st = load dat None st" by (simp add: load_def)
  have "saver_strategy_map (export_format (self st)) = Some sv \<Longrightarrow>
        metrics (self (snd (load dat cb st))) =
          (metrics (self st))
            \<lparr>rows_processed :=
               rows_processed (metrics (self st)) +
               sum_list (map df_len (reported sv (compression (self st)) (iter_chunks dat))),
             memory_usage :=
               memory_usage (metrics (self st)) @
               replicate (length (reported sv (compression (self st)) (iter_chunks dat)))
                 (memory (ext st))\<rparr>"
    by (simp add: load_self load_body_self foldl_update_metrics)
  with eq show ?thesis by blast
qed

theorem load_ignores_caller_callback_witness:
  "load (Chunks [batch_a, batch_b])
        (Some (\<lambda>n ew. (fst ew\<lparr>metrics := (metrics (fst ew))\<lparr>rows_processed := 999\<rparr>\<rparr>, snd ew)))
        (sample_sys ''csv'' None) =
   load (Chunks [batch_a, batch_b]) None (sample_sys ''csv'' None)
   \<and> metrics (self (snd (load (Chunks [batch_a, batch_b])
        (Some (\<lambda>n ew. (fst ew\<lparr>metrics := (metrics (fst ew))\<lparr>rows_processed := 999\<rparr>\<rparr>, snd ew)))
        (sample_sys ''csv'' None)))) =
     \<lparr>start_time = None, memory_usage = [100, 100], rows_processed = 2\<rparr>"
proof -
  let ?d = "Chunks [batch_a, batch_b]"
  let ?cb = "Some (\<lambda>n ew. (fst ew\<lparr>metrics := (metrics (fst ew))\<lparr>rows_processed := 999\<rparr>\<rparr>, snd ew))"
  let ?st = "sample_sys ''csv'' None"
  note t = load_ignores_caller_callback [of ?d ?cb ?st CsvSaver]
  have res: "saver_strategy_map (export_format (self ?st)) = Some CsvSaver"
    by (simp add: sample_sys_def sample_etl_def saver_strategy_map_def)
  have rep: "reported CsvSaver (compression (self ?st)) (iter_chunks ?d) = [batch_a, batch_b]"
    by (simp add: reported_def sample_sys_def sample_etl_def csv_codec_def
          normalize_compression_def pandas_accepts_def nonempty_def df_empty_def
          batch_a_def batch_b_def)
  have rhs: "(metrics (self ?st))
            \<lparr>rows_processed :=
               rows_processed (metrics (self ?st)) +
               sum_list (map df_len (reported CsvSaver (compression (self ?st)) (iter_chunks ?d))),
             memory_usage :=
               memory_usage (metrics (self ?st)) @
               replicate (length (reported CsvSaver (compression (self ?st)) (iter_chunks ?d)))
                 (memory (ext ?st))\<rparr> =
        \<lparr>start_time = None, memory_usage = [100, 100], rows_processed = 2\<rparr>"
    unfolding rep
    by (simp add: sample_sys_def sample_etl_def sample_world_def df_len_def batch_a_def batch_b_def)
  from t have 1: "load ?d ?cb ?st = load ?d None ?st" by (rule conjunct1)
  from t res have 2: "metrics (self (snd (load ?d ?cb ?st))) =
          (metrics (self ?st))
            \<lparr>rows_processed :=
               rows_processed (metrics (self ?st)) +
               sum_list (map df_len (reported CsvSaver (compression (self ?st)) (iter_chunks ?d))),
             memory_usage :=
               memory_usage (metrics (self ?st)) @
               replicate (length (reported CsvSaver (compression (self ?st)) (iter_chunks ?d)))
                 (memory (ext ?st))\<rparr>"
    by blast
  show ?thesis by (rule conjI [OF 1 trans [OF 2 rhs]])
qed

end
